theory Spec2Isabelle
  imports Main
begin

section \<open>Python strings and characters\<close>

text \<open>
  A Python \<^verbatim>\<open>str\<close> is modelled as a \<^typ>\<open>string\<close> whose characters are the code
  points below 256. On that range \<^verbatim>\<open>str.isdigit\<close> holds for the ASCII digits and for the
  superscript digits U+00B2, U+00B3 and U+00B9, and \<^verbatim>\<open>str.isspace\<close> holds for the ASCII
  white space, the separators U+001C to U+001F, U+0085 and U+00A0.
\<close>

definition py_isdigit :: "char \<Rightarrow> bool" where
  "py_isdigit c =
     (let n = (of_char c :: nat)
      in (48 \<le> n \<and> n \<le> 57) \<or> n = 178 \<or> n = 179 \<or> n = 185)"

definition py_isspace :: "char \<Rightarrow> bool" where
  "py_isspace c =
     (let n = (of_char c :: nat)
      in (9 \<le> n \<and> n \<le> 13) \<or> (28 \<le> n \<and> n \<le> 32) \<or> n = 133 \<or> n = 160)"

text \<open>\<^verbatim>\<open>s.isdigit()\<close>: every character is a digit and there is at least one.\<close>

definition str_isdigit :: "string \<Rightarrow> bool" where
  "str_isdigit s = (s \<noteq> [] \<and> list_all py_isdigit s)"

text \<open>\<^verbatim>\<open>''.join(filter(str.isdigit, s))\<close>\<close>

definition only_digits :: "string \<Rightarrow> string" where
  "only_digits s = filter py_isdigit s"

text \<open>\<^verbatim>\<open>s.strip()\<close>\<close>

definition py_strip :: "string \<Rightarrow> string" where
  "py_strip s = rev (dropWhile py_isspace (rev (dropWhile py_isspace s)))"

text \<open>\<^verbatim>\<open>s.startswith(p)\<close>\<close>

definition startswith :: "string \<Rightarrow> string \<Rightarrow> bool" where
  "startswith s p = (take (length p) s = p)"

text \<open>\<^verbatim>\<open>xs[a:b]\<close> for \<open>0 \<le> a \<le> b\<close>, and \<^verbatim>\<open>xs[a:]\<close>.\<close>

definition slice :: "'a list \<Rightarrow> nat \<Rightarrow> nat \<Rightarrow> 'a list" where
  "slice xs a b = take (b - a) (drop a xs)"

definition slice_from :: "'a list \<Rightarrow> nat \<Rightarrow> 'a list" where
  "slice_from xs a = drop a xs"

text \<open>\<^verbatim>\<open>sep.join(parts)\<close>\<close>

fun join :: "string \<Rightarrow> string list \<Rightarrow> string" where
  "join sep [] = []"
| "join sep [x] = x"
| "join sep (x # y # ys) = x @ sep @ join sep (y # ys)"

text \<open>
  \<^verbatim>\<open>re.findall(r'.{1,2}', s)\<close>: the dot matches any character but the line feed, and the
  quantifier is greedy, so the matches are the successive chunks of two characters (one
  where a line feed or the end follows).
\<close>

fun findall_1_2 :: "string \<Rightarrow> string list" where
  "findall_1_2 [] = []"
| "findall_1_2 [c] = (if c = CHR 0x0A then [] else [[c]])"
| "findall_1_2 (c # d # cs) =
     (if c = CHR 0x0A then findall_1_2 (d # cs)
      else if d = CHR 0x0A then [c] # findall_1_2 cs
      else [c, d] # findall_1_2 cs)"

section \<open>phone\_formats.py\<close>

text \<open>\<^verbatim>\<open>LOCAL_DIGIT_LIMITS_BY_CODE\<close>, in the order of the source.\<close>

definition LOCAL_DIGIT_LIMITS_BY_CODE :: "(int \<times> int) list" where
  "LOCAL_DIGIT_LIMITS_BY_CODE =
    [
     (1, 10), (7, 10), (20, 9), (27, 9), (30, 10), (31, 9), (32, 9), (33, 10), (34, 9),
     (36, 9), (39, 10), (40, 9), (41, 9), (43, 11), (44, 11), (45, 8), (46, 9), (47, 8),
     (48, 9), (49, 11), (51, 9), (52, 10), (53, 8), (54, 10), (55, 11), (56, 9), (57, 10),
     (58, 10), (60, 9), (61, 9), (62, 11), (63, 10), (64, 9), (65, 8), (66, 9), (81, 10),
     (82, 10), (84, 9), (86, 11), (90, 10), (91, 10), (92, 10), (93, 9), (94, 9), (95, 9),
     (98, 10), (211, 9), (212, 9), (213, 9), (216, 8), (218, 9), (220, 7), (221, 9), (222, 8),
     (223, 8), (224, 9), (225, 8), (226, 8), (227, 8), (228, 8), (229, 8), (230, 7), (231, 8),
     (232, 8), (233, 9), (234, 10), (235, 8), (236, 8), (237, 9), (238, 7), (239, 7),
     (240, 9), (241, 8), (242, 9), (243, 9), (244, 9), (245, 7), (248, 7), (249, 9), (250, 9),
     (251, 9), (252, 8), (253, 8), (254, 9), (255, 9), (256, 9), (257, 8), (258, 9), (260, 9),
     (261, 10), (262, 9), (263, 9), (264, 9), (265, 9), (266, 8), (267, 8), (268, 8),
     (269, 7), (290, 4), (291, 7), (297, 7), (298, 6), (299, 6), (350, 8), (351, 9), (352, 9),
     (353, 9), (354, 7), (355, 9), (356, 8), (357, 8), (358, 10), (359, 9), (370, 8),
     (371, 8), (372, 8), (373, 8), (374, 8), (375, 9), (376, 6), (377, 8), (378, 10),
     (380, 9), (381, 9), (382, 8), (383, 8), (385, 9), (386, 8), (387, 8), (389, 8), (420, 9),
     (421, 9), (423, 7), (500, 5), (501, 7), (502, 8), (503, 8), (504, 8), (505, 8), (506, 8),
     (507, 8), (508, 6), (509, 8), (590, 9), (591, 8), (592, 7), (593, 9), (594, 9), (595, 9),
     (596, 9), (597, 7), (598, 8), (599, 7), (670, 8), (671, 7), (672, 6), (673, 7), (674, 7),
     (675, 8), (676, 7), (677, 7), (678, 7), (679, 7), (680, 7), (681, 6), (682, 5), (683, 4),
     (684, 7), (685, 7), (686, 8), (687, 6), (688, 5), (689, 8), (690, 4), (691, 7), (692, 7),
     (850, 10), (852, 8), (853, 8), (855, 9), (856, 10), (872, 6), (880, 10), (886, 9),
     (960, 7), (961, 8), (962, 9), (963, 9), (964, 10), (965, 8), (966, 9), (967, 9),
     (968, 8), (970, 9), (971, 9), (972, 9), (973, 8), (974, 8), (975, 8), (976, 8),
     (977, 10), (992, 9), (993, 8), (994, 9), (995, 9), (996, 9), (998, 9)
    ]"

definition get_digit_limit :: "int \<Rightarrow> int" where
  "get_digit_limit country_code =
     (case map_of LOCAL_DIGIT_LIMITS_BY_CODE country_code of
        Some limit \<Rightarrow> limit
      | None \<Rightarrow> 15)"

text \<open>The generic fallback at the end of \<^verbatim>\<open>format_display_number\<close>.\<close>

definition generic_format :: "string \<Rightarrow> string" where
  "generic_format digits =
     (if length digits \<le> 6 then digits
      else if length digits \<le> 10 then
        slice digits 0 3 @ '' '' @ slice digits 3 6 @ '' '' @ slice_from digits 6
      else
        slice digits 0 3 @ '' '' @ slice digits 3 6 @ '' '' @ slice digits 6 10 @ '' ''
          @ slice_from digits 10)"

definition format_display_number :: "string \<Rightarrow> int \<Rightarrow> string" where
  "format_display_number digits country_code =
     (if digits = [] then []
      else if country_code = 1 \<and> length digits = 10 then
        ''('' @ slice digits 0 3 @ '') '' @ slice digits 3 6 @ ''-'' @ slice_from digits 6
      else if country_code = 44 then
        (if length digits = 10 then slice digits 0 4 @ '' '' @ slice_from digits 4
         else if length digits = 11 then slice digits 0 5 @ '' '' @ slice_from digits 5
         else generic_format digits)
      else if country_code = 33 \<and> length digits \<ge> 9 then
        (if length digits = 10 then
           [digits ! 0] @ '' '' @ slice digits 1 3 @ '' '' @ slice digits 3 5 @ '' ''
             @ slice digits 5 7 @ '' '' @ slice digits 7 9
         else join '' '' (findall_1_2 digits))
      else if country_code = 49 \<and> length digits \<ge> 10 then
        slice digits 0 4 @ '' '' @ slice_from digits 4
      else if country_code = 81 \<and> length digits = 10 then
        slice digits 0 2 @ ''-'' @ slice digits 2 6 @ ''-'' @ slice_from digits 6
      else if country_code = 82 \<and> length digits \<ge> 9 then
        slice digits 0 2 @ ''-'' @ slice digits 2 5 @ ''-'' @ slice_from digits 5
      else if country_code = 86 \<and> length digits = 11 then
        slice digits 0 3 @ '' '' @ slice digits 3 7 @ '' '' @ slice_from digits 7
      else if country_code = 91 \<and> length digits = 10 then
        slice digits 0 5 @ '' '' @ slice_from digits 5
      else if country_code = 61 \<and> length digits = 9 then
        [digits ! 0] @ '' '' @ slice digits 1 5 @ '' '' @ slice_from digits 5
      else if country_code = 55 \<and> (length digits = 10 \<or> length digits = 11) then
        (if length digits = 11 then
           ''('' @ slice digits 0 2 @ '') '' @ slice digits 2 7 @ ''-'' @ slice_from digits 7
         else
           ''('' @ slice digits 0 2 @ '') '' @ slice digits 2 6 @ ''-'' @ slice_from digits 6)
      else generic_format digits)"

definition validate_digit_input :: "string \<Rightarrow> int \<Rightarrow> bool" where
  "validate_digit_input current_digits country_code =
     (if \<not> str_isdigit current_digits then False
      else int (length current_digits) \<le> get_digit_limit country_code)"

section \<open>Randomness\<close>

text \<open>
  The random module is outside the repository: its outcomes are an arbitrary infinite
  sequence of natural numbers, consumed from the front. \<^verbatim>\<open>random.randint(lo, hi)\<close> and
  \<^verbatim>\<open>random.choice(xs)\<close> reduce the next outcome to their range, so every value of the
  range is reached by some sequence.
\<close>

type_synonym rng = "nat \<Rightarrow> nat"

datatype error = ValueError string | IndexError | RuntimeError string

definition next_rand :: "rng \<Rightarrow> nat \<times> rng" where
  "next_rand g = (g 0, \<lambda>i. g (Suc i))"

definition get_rand_int :: "nat \<Rightarrow> nat \<Rightarrow> rng \<Rightarrow> nat \<times> rng" where
  "get_rand_int min_val max_val g =
     (let (r, g') = next_rand g in (min_val + r mod (max_val - min_val + 1), g'))"

text \<open>\<^verbatim>\<open>random.choice\<close> raises IndexError on an empty sequence.\<close>

definition random_choice :: "'a list \<Rightarrow> rng \<Rightarrow> error + ('a \<times> rng)" where
  "random_choice xs g =
     (if xs = [] then Inl IndexError
      else let (r, g') = next_rand g in Inr (xs ! (r mod length xs), g'))"

text \<open>\<^verbatim>\<open>str(n)\<close> for a natural number.\<close>

fun str_nat :: "nat \<Rightarrow> string" where
  "str_nat n =
     (if n < 10 then [char_of (48 + n)]
      else str_nat (n div 10) @ [char_of (48 + n mod 10)])"

declare str_nat.simps [simp del]

section \<open>equation\_bank.py\<close>

text \<open>The backslash cannot be written inside a string literal.\<close>

abbreviation bs :: char where
  "bs \<equiv> CHR 0x5C"

definition eq_plus :: string where
  "eq_plus = bs # ''mathbf{+}''"

definition eq_placeholder :: "char \<Rightarrow> string" where
  "eq_placeholder digit_char = bs # ''mathbf{'' @ bs # ''textit{('' @ [digit_char] @ '')}}''"

text \<open>
  The template providers \<^verbatim>\<open>_get_0_templates\<close> to \<^verbatim>\<open>_get_9_templates\<close>: each draws its
  parameters and returns its list of templates.
\<close>

definition get_0_templates :: "rng \<Rightarrow> string list \<times> rng" where
  "get_0_templates g0 =
     (let (n, g1) = get_rand_int 1 3 g0 in
     ([bs # ''left( d^2'' @ bs # ''omega '' @ bs # ''right)'',
       bs # ''left( H^1('' @ bs # ''mathbb{P}^2, '' @ bs # ''mathcal{O}(-'' @ str_nat n @ '')) '' @ bs # ''right)'',
       bs # ''left( '' @ bs # ''text{ch}_0('' @ bs # ''mathcal{E} '' @ bs # ''otimes '' @ bs # ''mathcal{F}) - '' @ bs # ''text{ch}_0('' @ bs # ''mathcal{E}) '' @ bs # ''cdot '' @ bs # ''text{ch}_0('' @ bs # ''mathcal{F}) '' @ bs # ''right)'',
       bs # ''left( c_1(SU(n)) '' @ bs # ''right)'',
       bs # ''left( p_1(M^3) '' @ bs # ''right)'',
       bs # ''left( '' @ bs # ''partial_n '' @ bs # ''circ '' @ bs # ''partial_{n+1} '' @ bs # ''right)'',
       bs # ''left( H_n('' @ bs # ''text{pt}), n>0 '' @ bs # ''right)'',
       bs # ''left( '' @ bs # ''operatorname{Ext}^1_{'' @ bs # ''mathbb{Z}}('' @ bs # ''mathbb{Z}/n'' @ bs # ''mathbb{Z}, '' @ bs # ''mathbb{Q}) '' @ bs # ''right)'',
       bs # ''left( '' @ bs # ''chi(SU(n)) '' @ bs # ''right)'',
       bs # ''left( '' @ bs # ''operatorname{Tor}_1^{'' @ bs # ''mathbb{Z}}('' @ bs # ''mathbb{Z}/n'' @ bs # ''mathbb{Z}, '' @ bs # ''mathbb{Q}) '' @ bs # ''right)'',
       bs # ''left( '' @ bs # ''sigma('' @ bs # ''partial W) '' @ bs # ''right)'',
       bs # ''left( '' @ bs # ''hat{A}('' @ bs # ''partial W) '' @ bs # ''right)'',
       bs # ''left( ['' @ bs # ''mathbf{X}, '' @ bs # ''mathbf{X}] '' @ bs # ''right)'',
       bs # ''left( [X, [Y, Z]] + [Y, [Z, X]] + [Z, [X, Y]] '' @ bs # ''right)'',
       bs # ''left( '' @ bs # ''operatorname{Tr}(T^a), T^a '' @ bs # ''in '' @ bs # ''mathfrak{su}(n) '' @ bs # ''right)'',
       bs # ''left( '' @ bs # ''langle '' @ bs # ''chi_i, '' @ bs # ''chi_j '' @ bs # ''rangle_{i '' @ bs # ''neq j} '' @ bs # ''right)'',
       bs # ''left( '' @ bs # ''text{index}(D_{'' @ bs # ''text{odd dim}}) '' @ bs # ''right)'',
       bs # ''left( '' @ bs # ''sum_{N=1}^{'' @ bs # ''infty} '' @ bs # ''frac{'' @ bs # ''mu(N)}{N} '' @ bs # ''right)'',
       bs # ''left( '' @ bs # ''Gamma(z)'' @ bs # ''Gamma(1-z)'' @ bs # ''sin('' @ bs # ''pi z) - '' @ bs # ''pi '' @ bs # ''right)'',
       bs # ''left( '' @ bs # ''lim_{'' @ bs # ''tau '' @ bs # ''to i'' @ bs # ''infty} f('' @ bs # ''tau) '' @ bs # ''text{ for } f '' @ bs # ''in S_k('' @ bs # ''Gamma_0(N)) '' @ bs # ''right)'',
       bs # ''left( '' @ bs # ''operatorname{rank}_{an}(E) - '' @ bs # ''operatorname{rank}_{alg}(E) '' @ bs # ''right)'',
       bs # ''left( J_{'' @ str_nat n @ ''}(z) Y_{'' @ str_nat n @ ''-1}(z) - J_{'' @ str_nat n @ ''-1}(z) Y_{'' @ str_nat n @ ''}(z) + '' @ bs # ''frac{2}{'' @ bs # ''pi z} '' @ bs # ''right)'',
       bs # ''left( '' @ bs # ''langle['' @ bs # ''hat{x}, '' @ bs # ''hat{p}_x]'' @ bs # ''rangle - i'' @ bs # ''hbar '' @ bs # ''right)'',
       bs # ''left( '' @ bs # ''nabla_'' @ bs # ''mu g^{'' @ bs # ''alpha '' @ bs # ''beta} '' @ bs # ''right)''],
      g1))"

definition get_1_templates :: "rng \<Rightarrow> string list \<times> rng" where
  "get_1_templates g0 =
     (let (s_val, g1) = get_rand_int 2 4 g0 in
     ([bs # ''left( '' @ bs # ''text{rk}('' @ bs # ''text{Pic}('' @ bs # ''mathbb{P}^1)) '' @ bs # ''right)'',
       bs # ''left( '' @ bs # ''text{dim}('' @ bs # ''mathfrak{so}(2)) '' @ bs # ''right)'',
       bs # ''left( '' @ bs # ''text{rank}('' @ bs # ''text{K}_0('' @ bs # ''text{Spec}('' @ bs # ''mathbb{Z}))) '' @ bs # ''right)'',
       bs # ''left( '' @ bs # ''frac{'' @ bs # ''det(e^{A})}{e^{'' @ bs # ''operatorname{Tr}(A)}} '' @ bs # ''right)'',
       bs # ''left( '' @ bs # ''text{rank}('' @ bs # ''mathfrak{su}(2)) '' @ bs # ''right)'',
       bs # ''left( '' @ bs # ''chi_V(e) / '' @ bs # ''dim(V) '' @ bs # ''right)'',
       bs # ''left( |Z(S_3)| '' @ bs # ''right)'',
       bs # ''left( '' @ bs # ''text{dim}_{'' @ bs # ''mathbb{C}} H^{0,0}(X) '' @ bs # ''right)'',
       bs # ''left( h^{1,1}('' @ bs # ''mathbb{P}^1) '' @ bs # ''right)'',
       bs # ''left( '' @ bs # ''chi('' @ bs # ''text{Spec}('' @ bs # ''mathbb{C})) '' @ bs # ''right)'',
       bs # ''left( '' @ bs # ''frac{1}{2}'' @ bs # ''chi('' @ bs # ''mathbb{S}^{0}) '' @ bs # ''right)'',
       bs # ''left( '' @ bs # ''text{dim}(H^0('' @ bs # ''mathbb{P}^1, '' @ bs # ''mathcal{O}(0))) '' @ bs # ''right)'',
       bs # ''left( '' @ bs # ''text{genus}('' @ bs # ''mathbb{P}^1) + 1 '' @ bs # ''right)'',
       bs # ''left( '' @ bs # ''deg('' @ bs # ''mathbb{P}^0) '' @ bs # ''right)'',
       bs # ''left( '' @ bs # ''frac{(d-1)(d-2)}{2}|_{d=3} '' @ bs # ''right)'',
       bs # ''left( '' @ bs # ''text{lk}(L2a1) '' @ bs # ''right)'',
       bs # ''left( b_0('' @ bs # ''mathbb{T}^n) '' @ bs # ''right)'',
       bs # ''left( '' @ bs # ''zeta(0) + '' @ bs # ''frac{3}{2} '' @ bs # ''right)'',
       bs # ''left( '' @ bs # ''lim_{s '' @ bs # ''to 1} (s-1)'' @ bs # ''zeta(s) '' @ bs # ''right)'',
       bs # ''left( '' @ bs # ''prod_p '' @ bs # ''left(1 + '' @ bs # ''frac{1}{p(p-1)}'' @ bs # ''right) / '' @ bs # ''left('' @ bs # ''frac{'' @ bs # ''zeta(2)'' @ bs # ''zeta(3)}{'' @ bs # ''zeta(6)}'' @ bs # ''right) '' @ bs # ''right)'',
       bs # ''left( '' @ bs # ''sum_{idx=1}^{'' @ bs # ''infty} '' @ bs # ''frac{'' @ bs # ''mu(idx)}{idx} + 1 '' @ bs # ''right)'',
       bs # ''left( h(-4) '' @ bs # ''right)'',
       bs # ''left( '' @ bs # ''lambda([0,1]) '' @ bs # ''right)'',
       bs # ''left( '' @ bs # ''int_0^{'' @ bs # ''infty} '' @ bs # ''frac{x^{'' @ str_nat s_val @ ''-1}}{e^x - 1} '' @ bs # '',dx '' @ bs # ''cdot '' @ bs # ''frac{1}{'' @ bs # ''Gamma('' @ str_nat s_val @ '')'' @ bs # ''zeta('' @ str_nat s_val @ '')} '' @ bs # ''right)''],
      g1))"

definition get_2_templates :: "rng \<Rightarrow> string list \<times> rng" where
  "get_2_templates g0 =
     (let (n, g1) = get_rand_int 1 3 g0 in
     (let (s_val, g2) = get_rand_int 2 4 g1 in
     ([bs # ''left( '' @ bs # ''text{rank}('' @ bs # ''mathfrak{sl}_3('' @ bs # ''mathbb{C})) '' @ bs # ''right)'',
       bs # ''left( '' @ bs # ''dim H^1(S_3, '' @ bs # ''mathbb{C}^*) '' @ bs # ''right)'',
       bs # ''left( '' @ bs # ''text{dim}('' @ bs # ''mathfrak{u}(1)) '' @ bs # ''cdot 2 '' @ bs # ''right)'',
       bs # ''left( '' @ bs # ''text{dim}('' @ bs # ''mathfrak{so}(3)) - 1 '' @ bs # ''right)'',
       bs # ''left( '' @ bs # ''text{rank}('' @ bs # ''mathfrak{so}(4)) '' @ bs # ''right)'',
       bs # ''left( '' @ bs # ''dim('' @ bs # ''mathfrak{sl}_2('' @ bs # ''mathbb{C}))-1 '' @ bs # ''right)'',
       bs # ''left( '' @ bs # ''text{rk}('' @ bs # ''text{Pic}('' @ bs # ''mathbb{P}^1)) + 1 '' @ bs # ''right)'',
       bs # ''left( '' @ bs # ''text{dim}(H^0('' @ bs # ''mathbb{P}^1, '' @ bs # ''mathcal{O}(1))) '' @ bs # ''right)'',
       bs # ''left( b_0('' @ bs # ''mathbb{S}^1) + b_1('' @ bs # ''mathbb{S}^1) '' @ bs # ''right)'',
       bs # ''left( b_1('' @ bs # ''mathbb{T}^2) '' @ bs # ''right)'',
       bs # ''left( '' @ bs # ''deg(Q '' @ bs # ''subset '' @ bs # ''mathbb{P}^3) '' @ bs # ''right)'',
       bs # ''left( '' @ bs # ''chi('' @ bs # ''mathbb{CP}^2) - 1 '' @ bs # ''right)'',
       bs # ''left( '' @ bs # ''sum_i b_{2i}('' @ bs # ''mathbb{CP}^1) '' @ bs # ''right)'',
       bs # ''left( '' @ bs # ''deg('' @ bs # ''mathbb{V}(x_0x_2 - x_1^2)) '' @ bs # ''right)'',
       bs # ''left( '' @ bs # ''zeta(0) + '' @ bs # ''frac{5}{2} '' @ bs # ''right)'',
       bs # ''left( '' @ bs # ''lim_{s '' @ bs # ''to 1} 2(s-1)'' @ bs # ''zeta(s) '' @ bs # ''right)'',
       bs # ''left( h(-15) '' @ bs # ''right)'',
       bs # ''left( '' @ bs # ''phi('' @ bs # ''phi(5)) '' @ bs # ''right)'',
       bs # ''left( h(-23) - 1 '' @ bs # ''right)'',
       bs # ''left( |'' @ bs # ''{'' @ bs # ''mathfrak{p} '' @ bs # ''subset '' @ bs # ''mathbb{Z}[i] '' @ bs # ''mid '' @ bs # ''mathfrak{p} | (5)'' @ bs # ''}| '' @ bs # ''right)'',
       bs # ''left( '' @ bs # ''phi(4) '' @ bs # ''right)'',
       bs # ''left( |'' @ bs # ''text{Aut}(S_3)| - 4 '' @ bs # ''right)'',
       bs # ''left( '' @ bs # ''text{rank}('' @ bs # ''text{K}_0('' @ bs # ''mathbb{P}^1)) '' @ bs # ''right)'',
       bs # ''left( '' @ bs # ''text{rank}('' @ bs # ''mathbb{Z}/2'' @ bs # ''mathbb{Z} '' @ bs # ''times '' @ bs # ''mathbb{Z}/2'' @ bs # ''mathbb{Z}) '' @ bs # ''right)'',
       bs # ''left( '' @ bs # ''left('' @ bs # ''int_0^{'' @ bs # ''infty} '' @ bs # ''frac{x^{'' @ str_nat s_val @ ''-1}}{e^x - 1} '' @ bs # '',dx '' @ bs # ''cdot '' @ bs # ''frac{1}{'' @ bs # ''Gamma('' @ str_nat s_val @ '')'' @ bs # ''zeta('' @ str_nat s_val @ '')}'' @ bs # ''right) '' @ bs # ''cdot 2 '' @ bs # ''right)''],
      g2)))"

definition get_3_templates :: "rng \<Rightarrow> string list \<times> rng" where
  "get_3_templates g0 =
     ([bs # ''left( '' @ bs # ''text{dim}('' @ bs # ''mathfrak{sl}_2('' @ bs # ''mathbb{C})) '' @ bs # ''right)'',
       bs # ''left( '' @ bs # ''text{dim}('' @ bs # ''mathfrak{su}(2)) '' @ bs # ''right)'',
       bs # ''left( '' @ bs # ''text{dim}('' @ bs # ''text{SO}(3)) '' @ bs # ''right)'',
       bs # ''left( '' @ bs # ''dim('' @ bs # ''text{ad}('' @ bs # ''mathfrak{su}(2))) '' @ bs # ''right)'',
       bs # ''left( |W(A_2)| - 3 '' @ bs # ''right)'',
       bs # ''left( '' @ bs # ''text{rank}('' @ bs # ''mathfrak{so}(7)) '' @ bs # ''right)'',
       bs # ''left( |Irr(S_3)| '' @ bs # ''right)'',
       bs # ''left( '' @ bs # ''dim('' @ bs # ''mathfrak{g}_2) - 11 '' @ bs # ''right)'',
       bs # ''left( '' @ bs # ''dim('' @ bs # ''mathfrak{f}_4) - 49 '' @ bs # ''right)'',
       bs # ''left( '' @ bs # ''text{rank}('' @ bs # ''mathfrak{e}_7) - 4 '' @ bs # ''right)'',
       bs # ''left( '' @ bs # ''text{dim}(H^0('' @ bs # ''mathbb{P}^2, '' @ bs # ''mathcal{O}(1))) '' @ bs # ''right)'',
       bs # ''left( '' @ bs # ''chi('' @ bs # ''mathbb{CP}^2) '' @ bs # ''right)'',
       bs # ''left( ['' @ bs # ''mathbb{Q}('' @ bs # ''sqrt[3]{2}) : '' @ bs # ''mathbb{Q}] '' @ bs # ''right)'',
       bs # ''left( b_1('' @ bs # ''mathbb{T}^3) '' @ bs # ''right)'',
       bs # ''left( c(3_1) '' @ bs # ''right)'',
       bs # ''left( '' @ bs # ''dim(k[x,y,z]) '' @ bs # ''right)'',
       bs # ''left( '' @ bs # ''deg('' @ bs # ''nu_3('' @ bs # ''mathbb{P}^1)) '' @ bs # ''right)'',
       bs # ''left( c_1(T_{'' @ bs # ''mathbb{P}^2}) '' @ bs # ''cdot H '' @ bs # ''right)'',
       bs # ''left( '' @ bs # ''sigma(E_8) - 5 '' @ bs # ''right)'',
       bs # ''left( '' @ bs # ''zeta(-1) + '' @ bs # ''frac{37}{12} '' @ bs # ''right)'',
       bs # ''left( h(-23) '' @ bs # ''right)'',
       bs # ''left( '' @ bs # ''omega(30) '' @ bs # ''right)'',
       bs # ''left( |'' @ bs # ''mathbb{A}_3| '' @ bs # ''right)'',
       bs # ''left( '' @ bs # ''text{rank}('' @ bs # ''mathfrak{e}_8) - 5 '' @ bs # ''right)'',
       bs # ''left( '' @ bs # ''frac{'' @ bs # ''Gamma(4)'' @ bs # ''Gamma(2)}{'' @ bs # ''Gamma(3)} '' @ bs # ''right)''],
      g0)"

definition get_4_templates :: "rng \<Rightarrow> string list \<times> rng" where
  "get_4_templates g0 =
     ([bs # ''left( '' @ bs # ''text{dim}('' @ bs # ''mathfrak{so}(5)) - 6 '' @ bs # ''right)'',
       bs # ''left( '' @ bs # ''text{rank}('' @ bs # ''mathfrak{so}(8)) '' @ bs # ''right)'',
       bs # ''left( '' @ bs # ''dim('' @ bs # ''text{spinor rep of } SO(5)) '' @ bs # ''right)'',
       bs # ''left( '' @ bs # ''dim('' @ bs # ''mathfrak{g}_2) - 10 '' @ bs # ''right)'',
       bs # ''left( '' @ bs # ''text{rank}('' @ bs # ''mathfrak{e}_7) - 3 '' @ bs # ''right)'',
       bs # ''left( |W(A_2)| - 2 '' @ bs # ''right)'',
       bs # ''left( '' @ bs # ''dim('' @ bs # ''text{ad}('' @ bs # ''mathfrak{sl}_2('' @ bs # ''mathbb{C}))) + 1 '' @ bs # ''right)'',
       bs # ''left( '' @ bs # ''dim('' @ bs # ''mathfrak{su}(3)) - 4 '' @ bs # ''right)'',
       bs # ''left( '' @ bs # ''text{dim}(H^0('' @ bs # ''mathbb{P}^3, '' @ bs # ''mathcal{O}(1))) '' @ bs # ''right)'',
       bs # ''left( '' @ bs # ''chi('' @ bs # ''mathbb{P}^2) + 1 '' @ bs # ''right)'',
       bs # ''left( '' @ bs # ''text{dim}('' @ bs # ''text{End}('' @ bs # ''mathbb{C}^2)) '' @ bs # ''right)'',
       bs # ''left( '' @ bs # ''deg('' @ bs # ''nu_2('' @ bs # ''mathbb{P}^2)) '' @ bs # ''right)'',
       bs # ''left( '' @ bs # ''sum_i b_i('' @ bs # ''mathbb{T}^2) '' @ bs # ''right)'',
       bs # ''left( '' @ bs # ''text{rank}('' @ bs # ''pi_1('' @ bs # ''Sigma_2)) '' @ bs # ''right)'',
       bs # ''left( c_1(T_{'' @ bs # ''mathbb{P}^1 '' @ bs # ''times '' @ bs # ''mathbb{P}^1})^2 - 4 '' @ bs # ''right)'',
       bs # ''left( '' @ bs # ''deg(K_{'' @ bs # ''mathbb{P}^2}) + 7 '' @ bs # ''right)'',
       bs # ''left( '' @ bs # ''zeta(-3) + '' @ bs # ''frac{479}{120} '' @ bs # ''right)'',
       bs # ''left( h(-39) '' @ bs # ''right)'',
       bs # ''left( h(-51) '' @ bs # ''right)'',
       bs # ''left( h(-52) '' @ bs # ''right)'',
       bs # ''left( |'' @ bs # ''{'' @ bs # ''mathfrak{p} '' @ bs # ''subset '' @ bs # ''mathbb{Z}[i] '' @ bs # ''mid '' @ bs # ''mathfrak{p} | (13)'' @ bs # ''}| + 2 '' @ bs # ''right)'',
       bs # ''left( '' @ bs # ''text{depth}(k[[w,x,y,z]]) '' @ bs # ''right)'',
       bs # ''left( '' @ bs # ''text{rank}(K_0('' @ bs # ''mathbb{P}^1)) + 2 '' @ bs # ''right)'',
       bs # ''left( '' @ bs # ''operatorname{Res}_{z=0} '' @ bs # ''frac{4'' @ bs # ''cos(z)}{z} '' @ bs # ''right)'',
       bs # ''left( '' @ bs # ''sigma(E_8) - 4 '' @ bs # ''right)''],
      g0)"

definition get_5_templates :: "rng \<Rightarrow> string list \<times> rng" where
  "get_5_templates g0 =
     ([bs # ''left( '' @ bs # ''text{dim}('' @ bs # ''mathfrak{sp}(4,'' @ bs # ''mathbb{C})) - 5 '' @ bs # ''right)'',
       bs # ''left( '' @ bs # ''dim('' @ bs # ''text{U}(2)) + 1 '' @ bs # ''right)'',
       bs # ''left( |Irr(D_4)| '' @ bs # ''right)'',
       bs # ''left( '' @ bs # ''text{rank}('' @ bs # ''mathfrak{so}(11)) '' @ bs # ''right)'',
       bs # ''left( '' @ bs # ''dim('' @ bs # ''mathfrak{g}_2) - 9 '' @ bs # ''right)'',
       bs # ''left( '' @ bs # ''text{rank}('' @ bs # ''mathfrak{e}_8) - 3 '' @ bs # ''right)'',
       bs # ''left( '' @ bs # ''sigma(E_8) - 3 '' @ bs # ''right)'',
       bs # ''left( |W(A_2)| - 1 '' @ bs # ''right)'',
       bs # ''left( '' @ bs # ''text{dim}('' @ bs # ''text{Symp}^5('' @ bs # ''mathbb{C}^2)) - 1 '' @ bs # ''right)'',
       bs # ''left( '' @ bs # ''text{dim}(H^0('' @ bs # ''mathbb{P}^4, '' @ bs # ''mathcal{O}(1))) '' @ bs # ''right)'',
       bs # ''left( '' @ bs # ''chi('' @ bs # ''mathbb{P}^2) + 2 '' @ bs # ''right)'',
       bs # ''left( '' @ bs # ''chi(K_5) '' @ bs # ''right)'',
       bs # ''left( c_1(T_{'' @ bs # ''mathbb{P}^2})^2 - 4 '' @ bs # ''right)'',
       bs # ''left( b_1('' @ bs # ''mathbb{T}^2) '' @ bs # ''cdot 2 + 1 '' @ bs # ''right)'',
       bs # ''left( '' @ bs # ''deg('' @ bs # ''nu_4('' @ bs # ''mathbb{P}^1)) + 1 '' @ bs # ''right)'',
       bs # ''left( h(-47) '' @ bs # ''right)'',
       bs # ''left( v_2(40) '' @ bs # ''right)'',
       bs # ''left( h(-23) + 2 '' @ bs # ''right)'',
       bs # ''left( '' @ bs # ''zeta(-3) '' @ bs # ''cdot 120 + 4 '' @ bs # ''right)'',
       bs # ''left( '' @ bs # ''text{dim}('' @ bs # ''mathfrak{sl}_2('' @ bs # ''mathbb{C})) + 2 '' @ bs # ''right)'',
       bs # ''left( '' @ bs # ''text{rank}('' @ bs # ''mathfrak{e}_6) - 1 '' @ bs # ''right)'',
       bs # ''left( '' @ bs # ''text{rank}('' @ bs # ''mathfrak{e}_7) - 2 '' @ bs # ''right)'',
       bs # ''left( '' @ bs # ''dim('' @ bs # ''mathfrak{so}(4)) + '' @ bs # ''zeta(0) + 1/2 '' @ bs # ''right)'',
       bs # ''left( '' @ bs # ''dim('' @ bs # ''Lambda^2('' @ bs # ''mathbb{C}^4)) - 1 '' @ bs # ''right)''],
      g0)"

definition get_6_templates :: "rng \<Rightarrow> string list \<times> rng" where
  "get_6_templates g0 =
     ([bs # ''left( '' @ bs # ''text{dim}('' @ bs # ''mathfrak{so}(4,'' @ bs # ''mathbb{R})) '' @ bs # ''right)'',
       bs # ''left( '' @ bs # ''text{rank}('' @ bs # ''mathfrak{e}_6) '' @ bs # ''right)'',
       bs # ''left( |W(A_2)| '' @ bs # ''right)'',
       bs # ''left( '' @ bs # ''dim('' @ bs # ''mathfrak{so}(5)) - '' @ bs # ''text{rank}('' @ bs # ''mathfrak{so}(8)) '' @ bs # ''right)'',
       bs # ''left( '' @ bs # ''dim('' @ bs # ''Lambda^2('' @ bs # ''mathbb{C}^4)) '' @ bs # ''right)'',
       bs # ''left( '' @ bs # ''dim('' @ bs # ''mathfrak{su}(3)) - 2 '' @ bs # ''right)'',
       bs # ''left( '' @ bs # ''dim('' @ bs # ''mathfrak{sp}(4,'' @ bs # ''mathbb{C})) - 4 '' @ bs # ''right)'',
       bs # ''left( '' @ bs # ''dim('' @ bs # ''mathfrak{g}_2) - 8 '' @ bs # ''right)'',
       bs # ''left( '' @ bs # ''text{dim}('' @ bs # ''text{Symp}^6('' @ bs # ''mathbb{C}^2)) - 1 '' @ bs # ''right)'',
       bs # ''left( e_0(Q, R)|_{R=k[x], Q=(x^6)} '' @ bs # ''right)'',
       bs # ''left( -2 '' @ bs # ''deg(K_{'' @ bs # ''mathbb{P}^2}) '' @ bs # ''right)'',
       bs # ''left( b_1('' @ bs # ''mathbb{T}^2) '' @ bs # ''cdot 3 '' @ bs # ''right)'',
       bs # ''left( h^{2,0}('' @ bs # ''text{K3 surface}) + 5 '' @ bs # ''right)'',
       bs # ''left( '' @ bs # ''chi('' @ bs # ''mathbb{CP}^2) '' @ bs # ''cdot 2 '' @ bs # ''right)'',
       bs # ''left( c_1^2('' @ bs # ''mathbb{P}^2) - 3 '' @ bs # ''right)'',
       bs # ''left( '' @ bs # ''zeta(-5) + '' @ bs # ''frac{1513}{252} '' @ bs # ''right)'',
       bs # ''left( h(-87) '' @ bs # ''right)'',
       bs # ''left( h(-23) '' @ bs # ''cdot 2 '' @ bs # ''right)'',
       bs # ''left( -v_p(p^3!) + 3p+1 |_{p=2} '' @ bs # ''right)'',
       bs # ''left( |'' @ bs # ''text{Aut}(V_4)| '' @ bs # ''right)'',
       bs # ''left( '' @ bs # ''operatorname{Res}_{z=0} '' @ bs # ''frac{e^{6z}-1}{z^2} '' @ bs # ''right)'',
       bs # ''left( '' @ bs # ''dim('' @ bs # ''mathfrak{sl}_2('' @ bs # ''mathbb{C})) '' @ bs # ''cdot 2 '' @ bs # ''right)'',
       bs # ''left( '' @ bs # ''zeta(0) '' @ bs # ''cdot (-12) '' @ bs # ''right)'',
       bs # ''left( '' @ bs # ''text{rank}('' @ bs # ''mathfrak{e}_8) - 2 '' @ bs # ''right)''],
      g0)"

definition get_7_templates :: "rng \<Rightarrow> string list \<times> rng" where
  "get_7_templates g0 =
     ([bs # ''left( '' @ bs # ''text{rank}('' @ bs # ''mathfrak{e}_7) '' @ bs # ''right)'',
       bs # ''left( '' @ bs # ''dim(V_7) '' @ bs # ''right)'',
       bs # ''left( '' @ bs # ''dim('' @ bs # ''text{ad}('' @ bs # ''mathfrak{su}(3))) - 1 '' @ bs # ''right)'',
       bs # ''left( '' @ bs # ''dim(L(6'' @ bs # ''omega_1)_0) '' @ bs # ''text{ for } A_1 '' @ bs # ''right)'',
       bs # ''left( '' @ bs # ''dim('' @ bs # ''text{Hom}_{A_1}(V_{5}, V_{1} '' @ bs # ''otimes V_{5})) '' @ bs # ''right)'',
       bs # ''left( |W(A_2)| + 1 '' @ bs # ''right)'',
       bs # ''left( '' @ bs # ''dim('' @ bs # ''mathfrak{sp}(4,'' @ bs # ''mathbb{C})) - 3 '' @ bs # ''right)'',
       bs # ''left( '' @ bs # ''text{mult}_0('' @ bs # ''mathbb{C}[x_1..x_7]/(x_1..x_7)) '' @ bs # ''right)'',
       bs # ''left( '' @ bs # ''text{dim}('' @ bs # ''text{Symp}^7('' @ bs # ''mathbb{C}^2)) - 1 '' @ bs # ''right)'',
       bs # ''left( c_2(T_{'' @ bs # ''mathbb{P}^3}) '' @ bs # ''cdot H - 5 '' @ bs # ''right)'',
       bs # ''left( h^{1,1}(X) - h^{2,1}(X) + 6 |_{X='' @ bs # ''text{quintic}} '' @ bs # ''right)'',
       bs # ''left( '' @ bs # ''chi('' @ bs # ''text{dP}_2) + 5 '' @ bs # ''right)'',
       bs # ''left( '' @ bs # ''deg('' @ bs # ''nu_6('' @ bs # ''mathbb{P}^1)) + 1 '' @ bs # ''right)'',
       bs # ''left( c(4_1) + 2 '' @ bs # ''right)'',
       bs # ''left( h(-71) '' @ bs # ''right)'',
       bs # ''left( (x^2+7=2^n)|_{n=5} '' @ bs # ''rightarrow x '' @ bs # ''right)'',
       bs # ''left( '' @ bs # ''sum_{k=1}^5 p(5,k) '' @ bs # ''right)'',
       bs # ''left( '' @ bs # ''phi(14) + 1 '' @ bs # ''right)'',
       bs # ''left( '' @ bs # ''zeta(-3) '' @ bs # ''cdot 120 + 6 '' @ bs # ''right)'',
       bs # ''left( h(-47) + 2 '' @ bs # ''right)'',
       bs # ''left( '' @ bs # ''dim('' @ bs # ''text{M-Theory}) - 4 '' @ bs # ''right)'',
       bs # ''left( '' @ bs # ''sigma(E_8) - 1 '' @ bs # ''right)'',
       bs # ''left( '' @ bs # ''dim('' @ bs # ''mathfrak{g}_2) - 7 '' @ bs # ''right)'',
       bs # ''left( '' @ bs # ''text{rank}('' @ bs # ''mathfrak{e}_6) + 1 '' @ bs # ''right)'',
       bs # ''left( '' @ bs # ''left('' @ bs # ''int_{-'' @ bs # ''infty}^{'' @ bs # ''infty} '' @ bs # ''frac{dx}{(1+x^2)^4}'' @ bs # ''right) '' @ bs # ''cdot '' @ bs # ''frac{112}{5'' @ bs # ''pi} '' @ bs # ''right)''],
      g0)"

definition get_8_templates :: "rng \<Rightarrow> string list \<times> rng" where
  "get_8_templates g0 =
     ([bs # ''left( '' @ bs # ''text{dim}('' @ bs # ''mathfrak{sl}(3,'' @ bs # ''mathbb{C})) '' @ bs # ''right)'',
       bs # ''left( '' @ bs # ''text{dim}('' @ bs # ''mathfrak{so}(5)) - 2 '' @ bs # ''right)'',
       bs # ''left( '' @ bs # ''text{dim}('' @ bs # ''text{SU}(3)) '' @ bs # ''right)'',
       bs # ''left( '' @ bs # ''text{rank}('' @ bs # ''mathfrak{e}_8) '' @ bs # ''right)'',
       bs # ''left( '' @ bs # ''dim('' @ bs # ''text{ad}('' @ bs # ''mathfrak{sl}_3('' @ bs # ''mathbb{C}))) '' @ bs # ''right)'',
       bs # ''left( |'' @ bs # ''Delta('' @ bs # ''mathfrak{sp}_4)| '' @ bs # ''right)'',
       bs # ''left( '' @ bs # ''dim('' @ bs # ''mathfrak{f}_4) - 44 '' @ bs # ''right)'',
       bs # ''left( '' @ bs # ''dim('' @ bs # ''mathfrak{g}_2) - 6 '' @ bs # ''right)'',
       bs # ''left( '' @ bs # ''dim('' @ bs # ''mathfrak{e}_7) - 125 '' @ bs # ''right)'',
       bs # ''left( '' @ bs # ''text{dim}('' @ bs # ''text{Symp}^8('' @ bs # ''mathbb{C}^2)) - 1 '' @ bs # ''right)'',
       bs # ''left( '' @ bs # ''sigma(E_8) '' @ bs # ''right)'',
       bs # ''left( c_1(T_{'' @ bs # ''mathbb{P}^1 '' @ bs # ''times '' @ bs # ''mathbb{P}^1})^2 '' @ bs # ''right)'',
       bs # ''left( h^{2,1}('' @ bs # ''text{quintic}) - 93 '' @ bs # ''right)'',
       bs # ''left( b_1('' @ bs # ''mathbb{T}^2) '' @ bs # ''cdot 4 '' @ bs # ''right)'',
       bs # ''left( '' @ bs # ''chi('' @ bs # ''mathbb{CP}^3) + 4 '' @ bs # ''right)'',
       bs # ''left( '' @ bs # ''tau(24) '' @ bs # ''right)'',
       bs # ''left( '' @ bs # ''phi(15) '' @ bs # ''right)'',
       bs # ''left( h(-47) + 3 '' @ bs # ''right)'',
       bs # ''left( |W(A_2)| + 2 '' @ bs # ''right)'',
       bs # ''left( '' @ bs # ''left('' @ bs # ''int_{-'' @ bs # ''infty}^{'' @ bs # ''infty} '' @ bs # ''frac{dx}{(1+x^2)^4}'' @ bs # ''right) '' @ bs # ''cdot '' @ bs # ''frac{128}{5'' @ bs # ''pi} '' @ bs # ''right)'',
       bs # ''left( '' @ bs # ''operatorname{Res}_{z=0} '' @ bs # ''frac{8'' @ bs # ''cosh(z)}{z} '' @ bs # ''right)'',
       bs # ''left( '' @ bs # ''operatorname{Res}_{z=0} '' @ bs # ''frac{'' @ bs # ''sinh(8z)}{z^2} '' @ bs # ''right)'',
       bs # ''left( '' @ bs # ''text{rank}('' @ bs # ''mathfrak{e}_6) + 2 '' @ bs # ''right)'',
       bs # ''left( '' @ bs # ''chi('' @ bs # ''mathbb{CP}^2) '' @ bs # ''cdot 3 - 1 '' @ bs # ''right)''],
      g0)"

definition get_9_templates :: "rng \<Rightarrow> string list \<times> rng" where
  "get_9_templates g0 =
     ([bs # ''left( '' @ bs # ''text{dim}('' @ bs # ''mathfrak{so}(3) '' @ bs # ''otimes '' @ bs # ''mathfrak{so}(3)) '' @ bs # ''right)'',
       bs # ''left( '' @ bs # ''dim('' @ bs # ''mathfrak{sl}(3,'' @ bs # ''mathbb{C})) + 1 '' @ bs # ''right)'',
       bs # ''left( '' @ bs # ''text{rank}('' @ bs # ''mathfrak{e}_8) + 1 '' @ bs # ''right)'',
       bs # ''left( '' @ bs # ''sigma(E_8) + 1 '' @ bs # ''right)'',
       bs # ''left( |W(A_2)| + 3 '' @ bs # ''right)'',
       bs # ''left( '' @ bs # ''dim('' @ bs # ''mathfrak{g}_2) - 5 '' @ bs # ''right)'',
       bs # ''left( '' @ bs # ''dim('' @ bs # ''mathfrak{f}_4) - 43 '' @ bs # ''right)'',
       bs # ''left( '' @ bs # ''dim('' @ bs # ''mathfrak{e}_7) - 124 '' @ bs # ''right)'',
       bs # ''left( '' @ bs # ''dim('' @ bs # ''text{ad}('' @ bs # ''mathfrak{su}(3))) + 1 '' @ bs # ''right)'',
       bs # ''left( '' @ bs # ''text{dim}('' @ bs # ''text{Symp}^9('' @ bs # ''mathbb{C}^2)) - 1 '' @ bs # ''right)'',
       bs # ''left( c_1(T_{'' @ bs # ''mathbb{P}^2})^2 '' @ bs # ''right)'',
       bs # ''left( h^{1,1}('' @ bs # ''text{K3 surface}) - 11 '' @ bs # ''right)'',
       bs # ''left( b_1('' @ bs # ''mathbb{T}^3) '' @ bs # ''cdot 3 '' @ bs # ''right)'',
       bs # ''left( c(5_1) + 4 '' @ bs # ''right)'',
       bs # ''left( h(-199) '' @ bs # ''right)'',
       bs # ''left( '' @ bs # ''tau(36) '' @ bs # ''right)'',
       bs # ''left( v_3(3^4!) '' @ bs # ''right)'',
       bs # ''left( h(-87) + 3 '' @ bs # ''right)'',
       bs # ''left( h(-47) + 4 '' @ bs # ''right)'',
       bs # ''left( '' @ bs # ''deg('' @ bs # ''nu_8('' @ bs # ''mathbb{P}^1)) + 1 '' @ bs # ''right)'',
       bs # ''left( '' @ bs # ''left('' @ bs # ''int_{-'' @ bs # ''infty}^{'' @ bs # ''infty} '' @ bs # ''frac{dx}{(1+x^2)^5}'' @ bs # ''right) '' @ bs # ''cdot '' @ bs # ''frac{1152}{35'' @ bs # ''pi} '' @ bs # ''right)'',
       bs # ''left( '' @ bs # ''operatorname{Res}_{z=0} '' @ bs # ''frac{9-z^2}{z(1-z)} '' @ bs # ''right)'',
       bs # ''left( '' @ bs # ''text{rank}('' @ bs # ''mathfrak{e}_7) + 2 '' @ bs # ''right)'',
       bs # ''left( '' @ bs # ''text{rank}('' @ bs # ''mathfrak{e}_6) + 3 '' @ bs # ''right)'',
       bs # ''left( '' @ bs # ''dim('' @ bs # ''mathfrak{so}(5)) - 1 '' @ bs # ''right)''],
      g0)"


text \<open>
  \<^verbatim>\<open>hasattr(equation_bank, "_get_<c>_templates")\<close> followed by \<^verbatim>\<open>getattr\<close>: the module
  has the ten providers above and no other attribute of that form.
\<close>

definition templates_provider :: "char \<Rightarrow> (rng \<Rightarrow> string list \<times> rng) option" where
  "templates_provider digit_char =
     (if digit_char = CHR ''0'' then Some get_0_templates
      else if digit_char = CHR ''1'' then Some get_1_templates
      else if digit_char = CHR ''2'' then Some get_2_templates
      else if digit_char = CHR ''3'' then Some get_3_templates
      else if digit_char = CHR ''4'' then Some get_4_templates
      else if digit_char = CHR ''5'' then Some get_5_templates
      else if digit_char = CHR ''6'' then Some get_6_templates
      else if digit_char = CHR ''7'' then Some get_7_templates
      else if digit_char = CHR ''8'' then Some get_8_templates
      else if digit_char = CHR ''9'' then Some get_9_templates
      else None)"

section \<open>latex\_processor.py\<close>

definition MAX_UNIQUE_ATTEMPTS :: nat where
  "MAX_UNIQUE_ATTEMPTS = 15"

text \<open>
  One call of the provider followed by \<^verbatim>\<open>random.choice\<close>, as in the body of the loop and
  in the final \<^verbatim>\<open>return\<close>.
\<close>

definition draw_template ::
  "(rng \<Rightarrow> string list \<times> rng) \<Rightarrow> rng \<Rightarrow> error + (string \<times> rng)" where
  "draw_template get_templates g =
     (let (all_templates, g1) = get_templates g in random_choice all_templates g1)"

text \<open>
  The loop \<^verbatim>\<open>for _ in range(MAX_UNIQUE_ATTEMPTS)\<close> with the number of iterations left,
  and the final draw after it. The state is the set \<^verbatim>\<open>used_formulas\<close> and the random
  sequence.
\<close>

fun unique_attempts ::
  "nat \<Rightarrow> (rng \<Rightarrow> string list \<times> rng) \<Rightarrow> string set \<Rightarrow> rng
     \<Rightarrow> error + (string \<times> string set \<times> rng)" where
  "unique_attempts 0 get_templates used_formulas g =
     (case draw_template get_templates g of
        Inl e \<Rightarrow> Inl e
      | Inr (latex_str, g') \<Rightarrow> Inr (latex_str, used_formulas, g'))"
| "unique_attempts (Suc k) get_templates used_formulas g =
     (case draw_template get_templates g of
        Inl e \<Rightarrow> Inl e
      | Inr (latex_str, g') \<Rightarrow>
          if latex_str \<notin> used_formulas
          then Inr (latex_str, insert latex_str used_formulas, g')
          else unique_attempts k get_templates used_formulas g')"

definition get_unique_latex_for_digit ::
  "char \<Rightarrow> string set \<Rightarrow> rng \<Rightarrow> error + (string \<times> string set \<times> rng)" where
  "get_unique_latex_for_digit digit_char used_formulas g =
     (if \<not> py_isdigit digit_char then Inr (eq_placeholder digit_char, used_formulas, g)
      else case templates_provider digit_char of
        None \<Rightarrow> Inr (eq_placeholder digit_char, used_formulas, g)
      | Some get_templates \<Rightarrow>
          unique_attempts MAX_UNIQUE_ATTEMPTS get_templates used_formulas g)"

text \<open>
  The entries of \<^verbatim>\<open>latex_parts\<close>. The source appends strings; the model keeps with each
  string what it was appended for, and \<open>token_latex\<close> is the string of the source.
\<close>

datatype separator = GroupOpen | GroupClose | MinorGap | MajorGap | Dash

datatype token = Digit char string | PlusSign string | Separator separator

definition group_open :: string where
  "group_open = bs # ''boldsymbol{(}''"

definition group_close :: string where
  "group_close = bs # ''boldsymbol{)}''"

fun separator_latex :: "separator \<Rightarrow> string" where
  "separator_latex GroupOpen = group_open"
| "separator_latex GroupClose = group_close"
| "separator_latex MinorGap = bs # '';''"
| "separator_latex MajorGap = bs # ''quad''"
| "separator_latex Dash = bs # ''text{---}''"

fun token_latex :: "token \<Rightarrow> string" where
  "token_latex (Digit d latex_str) = latex_str"
| "token_latex (PlusSign latex_str) = latex_str"
| "token_latex (Separator k) = separator_latex k"

text \<open>
  \<^verbatim>\<open>[_get_unique_latex_for_digit(d, used_formulas) for d in digits]\<close>, and the same loop
  written with \<^verbatim>\<open>append\<close> for the country code.
\<close>

fun latex_for_digits ::
  "string \<Rightarrow> string set \<Rightarrow> rng \<Rightarrow> error + (token list \<times> string set \<times> rng)" where
  "latex_for_digits [] used_formulas g = Inr ([], used_formulas, g)"
| "latex_for_digits (d # ds) used_formulas g =
     (case get_unique_latex_for_digit d used_formulas g of
        Inl e \<Rightarrow> Inl e
      | Inr (latex_str, used1, g1) \<Rightarrow>
          (case latex_for_digits ds used1 g1 of
             Inl e \<Rightarrow> Inl e
           | Inr (ts, used2, g2) \<Rightarrow> Inr (Digit d latex_str # ts, used2, g2)))"

text \<open>The split into country code and main number.\<close>

definition split_country_code :: "bool \<Rightarrow> string \<Rightarrow> string \<times> string" where
  "split_country_code has_plus clean_number =
     (if has_plus \<and> length clean_number = 11 \<and> startswith clean_number ''1''
      then (''1'', slice_from clean_number 1)
      else if has_plus \<and> length clean_number > 10
      then (take (length clean_number - 10) clean_number,
            drop (length clean_number - 10) clean_number)
      else ([], clean_number))"

text \<open>The part of \<^verbatim>\<open>generate_latex_for_number\<close> that fills \<^verbatim>\<open>latex_parts\<close>.\<close>

definition country_code_parts ::
  "bool \<Rightarrow> string \<Rightarrow> rng \<Rightarrow> error + (token list \<times> string set \<times> rng)" where
  "country_code_parts has_plus country_code g =
     (let parts0 = (if has_plus then [PlusSign eq_plus] else [])
      in if country_code \<noteq> [] then
           (case latex_for_digits country_code {} g of
              Inl e \<Rightarrow> Inl e
            | Inr (ts, used1, g1) \<Rightarrow> Inr (parts0 @ ts @ [Separator MajorGap], used1, g1))
         else Inr (parts0, {}, g))"

definition main_number_parts ::
  "string \<Rightarrow> string set \<Rightarrow> rng \<Rightarrow> error + (token list \<times> string set \<times> rng)" where
  "main_number_parts main_number used_formulas g =
     (if length main_number = 10 then
        (case latex_for_digits (slice main_number 0 3) used_formulas g of
           Inl e \<Rightarrow> Inl e
         | Inr (area, used1, g1) \<Rightarrow>
        (case latex_for_digits (slice main_number 3 6) used1 g1 of
           Inl e \<Rightarrow> Inl e
         | Inr (exch, used2, g2) \<Rightarrow>
        (case latex_for_digits (slice_from main_number 6) used2 g2 of
           Inl e \<Rightarrow> Inl e
         | Inr (line, used3, g3) \<Rightarrow>
             Inr ([Separator GroupOpen] @ area @ [Separator GroupClose, Separator MinorGap]
                    @ exch @ [Separator Dash] @ line, used3, g3))))
      else latex_for_digits main_number used_formulas g)"

record composition =
  country_code_of :: string
  main_number_of :: string
  tokens_of :: "token list"
  used_formulas_of :: "string set"
  rng_of :: rng

definition compose_parts :: "string \<Rightarrow> rng \<Rightarrow> error + composition" where
  "compose_parts full_number_str g =
     (if py_strip full_number_str = [] then Inl (ValueError ''Phone number cannot be empty'')
      else
        let clean_number = only_digits full_number_str;
            has_plus = startswith (py_strip full_number_str) ''+''
        in if clean_number = []
           then Inl (ValueError ''Phone number must contain at least one digit'')
           else
             let (country_code, main_number) = split_country_code has_plus clean_number
             in case country_code_parts has_plus country_code g of
                  Inl e \<Rightarrow> Inl e
                | Inr (parts1, used1, g1) \<Rightarrow>
                    (case main_number_parts main_number used1 g1 of
                       Inl e \<Rightarrow> Inl e
                     | Inr (parts2, used2, g2) \<Rightarrow>
                         Inr \<lparr>country_code_of = country_code, main_number_of = main_number,
                              tokens_of = parts1 @ parts2, used_formulas_of = used2,
                              rng_of = g2\<rparr>))"

definition latex_parts_of :: "composition \<Rightarrow> string list" where
  "latex_parts_of c = map token_latex (tokens_of c)"

text \<open>
  \<^verbatim>\<open>format_equation_with_line_breaks\<close>. One step of the walk takes the next column off
  the parts that are left: the area code block, or a single part.
\<close>

definition MAX_LINE_LENGTH :: nat where
  "MAX_LINE_LENGTH = 3"

definition next_column :: "string \<Rightarrow> string list \<Rightarrow> string \<times> string list" where
  "next_column part rest =
     (if part = group_open then
        (let area_code_parts = [group_open] @ take 3 rest;
             rest1 = drop 3 rest
         in if rest1 \<noteq> [] \<and> hd rest1 = group_close
            then (join '' '' (area_code_parts @ [group_close @ '' '']), tl rest1)
            else (join '' '' area_code_parts, rest1))
      else (part, rest))"

function line_loop ::
  "string list \<Rightarrow> string list \<Rightarrow> string list list \<Rightarrow> string list list" where
  "line_loop [] current_line lines =
     (if current_line \<noteq> [] then lines @ [current_line] else lines)"
| "line_loop (part # rest) current_line lines =
     (let current_line1 = current_line @ [fst (next_column part rest)]
      in if length current_line1 \<ge> MAX_LINE_LENGTH
         then line_loop (snd (next_column part rest)) [] (lines @ [current_line1])
         else line_loop (snd (next_column part rest)) current_line1 lines)"
  by pat_completeness auto
termination
  by (relation "measure (\<lambda>(parts, current_line, lines). length parts)")
    (auto simp: next_column_def Let_def)

text \<open>The lines as lists of columns, before they are joined.\<close>

definition wrap_columns :: "string list \<Rightarrow> string list list" where
  "wrap_columns latex_parts = line_loop latex_parts [] []"

definition format_equation_with_line_breaks :: "string list \<Rightarrow> string" where
  "format_equation_with_line_breaks latex_parts =
     join ('' '' @ [bs, bs, CHR 0x0A])
       (map (\<lambda>line. ''& '' @ join '' '' line) (wrap_columns latex_parts))"

text \<open>The escaping of the signature, \<^verbatim>\<open>str.translate\<close> with the table of the source.\<close>

definition escape_char :: "char \<Rightarrow> string" where
  "escape_char c =
     (if c = bs then bs # ''textbackslash{}''
      else if c = CHR ''&'' then bs # ''&''
      else if c = CHR ''%'' then bs # ''%''
      else if c = CHR ''$'' then bs # ''$''
      else if c = CHR ''#'' then bs # ''#''
      else if c = CHR ''_'' then bs # ''_''
      else if c = CHR ''{'' then bs # ''{''
      else if c = CHR ''}'' then bs # ''}''
      else [c])"

definition escape_signature :: "string \<Rightarrow> string" where
  "escape_signature signature_text = concat (map escape_char signature_text)"

definition latex_document :: "string \<Rightarrow> string \<Rightarrow> string" where
  "latex_document escaped_signature math_lines =
     join [CHR 0x0A]
       [bs # ''documentclass[border=10pt]{standalone}'',
        bs # ''usepackage{amsmath, amssymb, amsfonts, graphicx, xcolor}'',
        bs # ''usepackage[T1]{fontenc}'',
        bs # ''usepackage{helvet}'',
        bs # ''renewcommand{'' @ bs # ''familydefault}{'' @ bs # ''sfdefault}'',
        bs # ''begin{document}'',
        bs # ''begin{center}'',
        bs # ''begin{minipage}{0.95'' @ bs # ''linewidth}'',
        bs # ''centering'',
        ''{'' @ bs # ''Large '' @ bs # ''textbf{'' @ escaped_signature @ ''}}'' @ [bs, bs]
          @ ''[0.5cm]'',
        bs # ''begin{align*}'',
        math_lines,
        bs # ''end{align*}'',
        bs # ''end{minipage}'',
        bs # ''end{center}'',
        bs # ''end{document}'']"

text \<open>
  \<^verbatim>\<open>generate_latex_for_number\<close>. The renderer \<^verbatim>\<open>render_latex_to_png\<close> runs external
  programs: it is a parameter that returns a path or none, and a message; a missing or
  empty path raises a RuntimeError. Writing the verification file is wrapped in
  \<^verbatim>\<open>try\<close>/\<^verbatim>\<open>except\<close> and has no effect on the result.
\<close>

definition generate_latex_for_number ::
  "(string \<Rightarrow> string option \<times> string) \<Rightarrow> string \<Rightarrow> string \<Rightarrow> rng \<Rightarrow> error + string" where
  "generate_latex_for_number render_latex_to_png full_number_str signature_text g =
     (case compose_parts full_number_str g of
        Inl e \<Rightarrow> Inl e
      | Inr c \<Rightarrow>
          (let math_lines = format_equation_with_line_breaks (latex_parts_of c);
               latex_doc = latex_document (escape_signature signature_text) math_lines
           in case render_latex_to_png (py_strip latex_doc) of
                (None, msg) \<Rightarrow> Inl (RuntimeError msg)
              | (Some image_path, msg) \<Rightarrow>
                  if image_path = [] then Inl (RuntimeError msg) else Inr image_path))"

section \<open>Notions used to state the properties\<close>

text \<open>
  The draws of one lookup, counted from 0: \<open>nth_draw f k g\<close> is the template drawn at
  the draw number \<open>k\<close> when the lookup starts with the random sequence \<open>g\<close>, and
  \<open>rng_after f k g\<close> is the random sequence left after \<open>k\<close> draws.
\<close>

definition drawn :: "(rng \<Rightarrow> string list \<times> rng) \<Rightarrow> rng \<Rightarrow> string \<times> rng" where
  "drawn f g = (case draw_template f g of Inr p \<Rightarrow> p | Inl e \<Rightarrow> ([], g))"

fun rng_after :: "(rng \<Rightarrow> string list \<times> rng) \<Rightarrow> nat \<Rightarrow> rng \<Rightarrow> rng" where
  "rng_after f 0 g = g"
| "rng_after f (Suc k) g = rng_after f k (snd (drawn f g))"

definition nth_draw :: "(rng \<Rightarrow> string list \<times> rng) \<Rightarrow> nat \<Rightarrow> rng \<Rightarrow> string" where
  "nth_draw f k g = fst (drawn f (rng_after f k g))"

text \<open>A lookup is exhausted when each draw of its loop is already in the used set.\<close>

definition exhausted :: "char \<Rightarrow> string set \<Rightarrow> rng \<Rightarrow> bool" where
  "exhausted d used_formulas g =
     (case templates_provider d of
        None \<Rightarrow> False
      | Some f \<Rightarrow> list_all (\<lambda>k. nth_draw f k g \<in> used_formulas) [0..<MAX_UNIQUE_ATTEMPTS])"

text \<open>No lookup of a composition is exhausted, along the state the lookups pass on.\<close>

fun no_exhaustion :: "string \<Rightarrow> string set \<Rightarrow> rng \<Rightarrow> bool" where
  "no_exhaustion [] used_formulas g = True"
| "no_exhaustion (d # ds) used_formulas g =
     (\<not> exhausted d used_formulas g \<and>
      (case get_unique_latex_for_digit d used_formulas g of
         Inl e \<Rightarrow> False
       | Inr (latex_str, used1, g1) \<Rightarrow> no_exhaustion ds used1 g1))"

text \<open>The digits of the digit tokens, and the expressions emitted for digits with templates.\<close>

fun digit_values :: "token list \<Rightarrow> string" where
  "digit_values [] = []"
| "digit_values (Digit d latex_str # ts) = d # digit_values ts"
| "digit_values (t # ts) = digit_values ts"

fun template_exprs :: "token list \<Rightarrow> string list" where
  "template_exprs [] = []"
| "template_exprs (Digit d latex_str # ts) =
     (if templates_provider d = None then template_exprs ts
      else latex_str # template_exprs ts)"
| "template_exprs (t # ts) = template_exprs ts"

text \<open>The digit tokens of a token list, in their order.\<close>

fun digit_tokens :: "token list \<Rightarrow> token list" where
  "digit_tokens [] = []"
| "digit_tokens (Digit d latex_str # ts) = Digit d latex_str # digit_tokens ts"
| "digit_tokens (t # ts) = digit_tokens ts"

text \<open>The expressions emitted for one digit, in the order of emission.\<close>

fun exprs_for :: "char \<Rightarrow> token list \<Rightarrow> string list" where
  "exprs_for d [] = []"
| "exprs_for d (Digit d' latex_str # ts) =
     (if d' = d then latex_str # exprs_for d ts else exprs_for d ts)"
| "exprs_for d (t # ts) = exprs_for d ts"

text \<open>The columns of the line wrapping, one after the other, before they are cut into lines.\<close>

function columns :: "string list \<Rightarrow> string list" where
  "columns [] = []"
| "columns (part # rest) = fst (next_column part rest) # columns (snd (next_column part rest))"
  by pat_completeness auto
termination
  by (relation "measure length") (auto simp: next_column_def Let_def)

text \<open>Two random sequences: every outcome 0, and the outcomes 0, 1, 2, ...\<close>

definition zero_rng :: rng where
  "zero_rng = (\<lambda>i. 0)"

definition count_rng :: rng where
  "count_rng = (\<lambda>i. i)"

section \<open>Properties of the phone format registry\<close>

lemma limits_positive: "list_all (\<lambda>(k, v). 0 < v) LOCAL_DIGIT_LIMITS_BY_CODE"
  by (simp add: LOCAL_DIGIT_LIMITS_BY_CODE_def)

lemma limits_keys_distinct: "distinct (map fst LOCAL_DIGIT_LIMITS_BY_CODE)"
  by (simp add: LOCAL_DIGIT_LIMITS_BY_CODE_def)

lemma limit_of_code_1: "map_of LOCAL_DIGIT_LIMITS_BY_CODE 1 = Some 10"
  by (simp add: LOCAL_DIGIT_LIMITS_BY_CODE_def)

lemma limit_of_code_0: "map_of LOCAL_DIGIT_LIMITS_BY_CODE 0 = None"
  by (simp add: LOCAL_DIGIT_LIMITS_BY_CODE_def)

text \<open>
  C8. For a calling code of the table, \<open>get_digit_limit\<close> returns the configured value,
  which is positive; for any other calling code it returns 15. The function is total, so
  it never fails. (The keys of the table are distinct, \<open>limits_keys_distinct\<close>, so the
  first entry found is the only one.)
\<close>

theorem get_digit_limit_total:
  "(\<forall>v. map_of LOCAL_DIGIT_LIMITS_BY_CODE c = Some v \<longrightarrow> get_digit_limit c = v \<and> 0 < v) \<and>
   (map_of LOCAL_DIGIT_LIMITS_BY_CODE c = None \<longrightarrow> get_digit_limit c = 15)"
proof -
  have "0 < v" if "map_of LOCAL_DIGIT_LIMITS_BY_CODE c = Some v" for v
  proof -
    from that have "(c, v) \<in> set LOCAL_DIGIT_LIMITS_BY_CODE" by (rule map_of_SomeD)
    with limits_positive show ?thesis by (auto simp: list_all_iff)
  qed
  then show ?thesis by (simp add: get_digit_limit_def)
qed

theorem get_digit_limit_total_witness:
  "map_of LOCAL_DIGIT_LIMITS_BY_CODE 1 = Some 10 \<and> get_digit_limit 1 = 10 \<and>
   map_of LOCAL_DIGIT_LIMITS_BY_CODE 0 = None \<and> get_digit_limit 0 = 15"
  using get_digit_limit_total [of 1] get_digit_limit_total [of 0]
    limit_of_code_1 limit_of_code_0 by simp

text \<open>
  C2, as stated, fails on the empty string: \<^verbatim>\<open>"".isdigit()\<close> is false, so the guard of
  \<open>validate_digit_input\<close> rejects it.
\<close>

theorem validate_empty_counterexample: "\<not> validate_digit_input [] 1"
  by (simp add: validate_digit_input_def str_isdigit_def)

text \<open>
  C2, amended. \<open>validate_digit_input\<close> is false for the empty string, false for a string
  with a non-digit character, false for a string longer than the digit limit, and true
  in every other case.
\<close>

theorem validate_characterization:
  "(s = [] \<longrightarrow> \<not> validate_digit_input s c) \<and>
   ((\<exists>ch \<in> set s. \<not> py_isdigit ch) \<longrightarrow> \<not> validate_digit_input s c) \<and>
   (int (length s) > get_digit_limit c \<longrightarrow> \<not> validate_digit_input s c) \<and>
   (s \<noteq> [] \<and> (\<forall>ch \<in> set s. py_isdigit ch) \<and> int (length s) \<le> get_digit_limit c
      \<longrightarrow> validate_digit_input s c)"
  by (auto simp: validate_digit_input_def str_isdigit_def list_all_iff)

theorem validate_characterization_witness:
  "\<not> validate_digit_input [] 1 \<and>
   (\<exists>ch \<in> set ''55a''. \<not> py_isdigit ch) \<and> \<not> validate_digit_input ''55a'' 1 \<and>
   int (length ''55512345678'') > get_digit_limit 1 \<and> \<not> validate_digit_input ''55512345678'' 1 \<and>
   list_all py_isdigit ''5551234567'' \<and> int (length ''5551234567'') \<le> get_digit_limit 1 \<and>
   validate_digit_input ''5551234567'' 1"
proof -
  have a: "\<exists>ch \<in> set ''55a''. \<not> py_isdigit ch" by (simp add: py_isdigit_def)
  have b: "int (length ''55512345678'') > get_digit_limit 1"
    by (simp add: get_digit_limit_def limit_of_code_1)
  have c: "''5551234567'' \<noteq> [] \<and> (\<forall>ch \<in> set ''5551234567''. py_isdigit ch) \<and>
           int (length ''5551234567'') \<le> get_digit_limit 1"
    by (simp add: get_digit_limit_def limit_of_code_1 py_isdigit_def)
  show ?thesis
    using validate_characterization [of "[]" 1] validate_characterization [of "''55a''" 1]
      validate_characterization [of "''55512345678''" 1]
      validate_characterization [of "''5551234567''" 1] a b c
    by (simp add: list_all_iff)
qed

text \<open>
  Stripping the separators of the formatted number gives back the digits for every calling
  code and every length, except for France with ten digits.
\<close>

lemma filter_digits_id: "list_all py_isdigit xs \<Longrightarrow> filter py_isdigit xs = xs"
  by (simp add: list_all_iff)

lemma digits_slice: "list_all py_isdigit xs \<Longrightarrow> filter py_isdigit (slice xs a b) = slice xs a b"
  by (rule filter_digits_id) (auto simp: slice_def list_all_iff dest: in_set_takeD in_set_dropD)

lemma digits_slice_from:
  "list_all py_isdigit xs \<Longrightarrow> filter py_isdigit (slice_from xs a) = slice_from xs a"
  by (rule filter_digits_id) (auto simp: slice_from_def list_all_iff dest: in_set_dropD)

lemma slice_join: "a \<le> b \<Longrightarrow> slice xs a b @ slice_from xs b = slice_from xs a"
proof -
  assume "a \<le> b"
  then have "drop b xs = drop (b - a) (drop a xs)" by simp
  then show ?thesis by (simp only: slice_def slice_from_def append_take_drop_id)
qed

lemma slice_join_more:
  "a \<le> b \<Longrightarrow> slice xs a b @ slice_from xs b @ ys = slice_from xs a @ ys"
  using slice_join [of a b xs] by (simp only: append_assoc [symmetric])

lemma slice_from_0: "slice_from xs 0 = xs"
  by (simp add: slice_from_def)

lemma first_and_rest: "xs \<noteq> [] \<Longrightarrow> xs ! 0 # slice_from xs (Suc 0) = xs"
  by (cases xs) (simp_all add: slice_from_def)

lemma first_is_digit: "list_all py_isdigit xs \<Longrightarrow> xs \<noteq> [] \<Longrightarrow> py_isdigit (xs ! 0)"
  by (cases xs) simp_all

lemma separators_no_digits:
  "\<not> py_isdigit (CHR '' '')" "\<not> py_isdigit (CHR ''('')" "\<not> py_isdigit (CHR '')'')"
  "\<not> py_isdigit (CHR ''-'')" "\<not> py_isdigit (CHR 0x0A)"
  by (simp_all add: py_isdigit_def)

lemma filter_join:
  "filter P sep = [] \<Longrightarrow> filter P (join sep xs) = concat (map (filter P) xs)"
  by (induction sep xs rule: join.induct) simp_all

lemma findall_digits:
  "list_all py_isdigit xs \<Longrightarrow> concat (map (filter py_isdigit) (findall_1_2 xs)) = xs"
  by (induction xs rule: findall_1_2.induct) (auto simp: separators_no_digits)

lemma generic_format_roundtrip:
  assumes "list_all py_isdigit D"
  shows "only_digits (generic_format D) = D"
  using assms
  by (simp add: generic_format_def only_digits_def digits_slice digits_slice_from
      separators_no_digits slice_join slice_join_more slice_from_0 filter_digits_id)

lemma format_roundtrip_other:
  assumes "list_all py_isdigit D" and "\<not> (C = 33 \<and> length D = 10)"
  shows "only_digits (format_display_number D C) = D"
proof (cases "D = []")
  case True
  then show ?thesis by (simp add: format_display_number_def only_digits_def)
next
  case False
  note fd = first_is_digit [OF assms(1) False]
  have france: "only_digits (join '' '' (findall_1_2 D)) = D"
    using assms(1) by (simp add: only_digits_def filter_join separators_no_digits findall_digits)
  have first: "D ! 0 # slice D (Suc 0) b @ slice_from D b = D" if "Suc 0 \<le> b" for b
    using slice_join [OF that, of D] first_and_rest [OF False] by simp
  show ?thesis
    using assms False fd generic_format_roundtrip [OF assms(1)] france
    by (auto simp: format_display_number_def only_digits_def digits_slice digits_slice_from
        separators_no_digits slice_join slice_join_more slice_from_0 first first_and_rest)
qed

text \<open>
  C1 at the input \<open>0123456789\<close> for France (calling code 33, digit limit 10): the branch
  for ten digits ends with the slice \<^verbatim>\<open>digits[7:9]\<close>, so the tenth digit is not in the
  formatted string and stripping the separators gives back nine digits only. By
  \<open>format_roundtrip_other\<close> this is the only case where the digits are not reconstructed.
\<close>

theorem france_ten_digits_drop_last:
  "list_all py_isdigit ''0123456789'' \<and>
   int (length ''0123456789'') \<le> get_digit_limit 33 \<and>
   format_display_number ''0123456789'' 33 = ''0 12 34 56 78'' \<and>
   only_digits (format_display_number ''0123456789'' 33) = ''012345678''"
  by (simp add: format_display_number_def slice_def only_digits_def py_isdigit_def
      get_digit_limit_def LOCAL_DIGIT_LIMITS_BY_CODE_def)

section \<open>The lookup of one digit\<close>

lemma next_rand_zero: "next_rand zero_rng = (0, zero_rng)"
  by (simp add: next_rand_def zero_rng_def)

lemma provider_nonempty:
  "templates_provider c = Some f \<Longrightarrow> fst (f g) \<noteq> []"
  by (auto simp: templates_provider_def get_0_templates_def get_1_templates_def
      get_2_templates_def get_3_templates_def get_4_templates_def get_5_templates_def
      get_6_templates_def get_7_templates_def get_8_templates_def get_9_templates_def
      split_def Let_def split: if_splits)

lemma provider_isdigit: "templates_provider c = Some f \<Longrightarrow> py_isdigit c"
  by (auto simp: templates_provider_def py_isdigit_def split: if_splits)

lemma draw_template_ok:
  assumes "fst (f g) \<noteq> []"
  shows "draw_template f g = Inr (drawn f g)"
  using assms
  by (auto simp: draw_template_def drawn_def random_choice_def split_def Let_def)

lemma rng_after_Suc: "rng_after f (Suc k) g = snd (drawn f (rng_after f k g))"
  by (induction k arbitrary: g) simp_all

lemma nth_draw_0: "nth_draw f 0 g = fst (drawn f g)"
  by (simp add: nth_draw_def)

lemma nth_draw_Suc: "nth_draw f (Suc k) g = nth_draw f k (snd (drawn f g))"
  by (simp add: nth_draw_def)

lemma unique_attempts_exhausted:
  assumes ne: "\<And>g. fst (f g) \<noteq> []"
    and coll: "\<forall>i<k. nth_draw f i g \<in> used"
  shows "unique_attempts k f used g = Inr (nth_draw f k g, used, rng_after f (Suc k) g)"
  using coll
proof (induction k arbitrary: g)
  case 0
  show ?case by (simp add: draw_template_ok [OF ne] nth_draw_0 split_def)
next
  case (Suc k)
  from Suc.prems have first: "fst (drawn f g) \<in> used"
    by (auto simp: nth_draw_0 dest: spec [of _ 0])
  from Suc.prems have rest: "\<forall>i<k. nth_draw f i (snd (drawn f g)) \<in> used"
    by (auto simp: nth_draw_Suc dest: spec [of _ "Suc i" for i])
  show ?case
    using first Suc.IH [OF rest]
    by (simp add: draw_template_ok [OF ne] split_def nth_draw_Suc)
qed

lemma unique_attempts_fresh:
  assumes ne: "\<And>g. fst (f g) \<noteq> []"
    and j: "j < k"
    and coll: "\<forall>i<j. nth_draw f i g \<in> used"
    and fresh: "nth_draw f j g \<notin> used"
  shows "unique_attempts k f used g =
           Inr (nth_draw f j g, insert (nth_draw f j g) used, rng_after f (Suc j) g)"
  using j coll fresh
proof (induction k arbitrary: g j)
  case 0
  then show ?case by simp
next
  case (Suc k)
  show ?case
  proof (cases j)
    case 0
    with Suc.prems show ?thesis
      by (simp add: draw_template_ok [OF ne] split_def nth_draw_0)
  next
    case (Suc j')
    with Suc.prems have first: "fst (drawn f g) \<in> used"
      by (auto simp: nth_draw_0 dest: spec [of _ 0])
    from Suc Suc.prems have rest: "\<forall>i<j'. nth_draw f i (snd (drawn f g)) \<in> used"
      by (auto simp: nth_draw_Suc dest: spec [of _ "Suc i" for i])
    from Suc Suc.prems have fr: "nth_draw f j' (snd (drawn f g)) \<notin> used"
      by (simp add: nth_draw_Suc)
    from Suc Suc.prems have lt: "j' < k" by simp
    show ?thesis
      using first Suc.IH [OF lt rest fr] Suc
      by (simp add: draw_template_ok [OF ne] split_def nth_draw_Suc)
  qed
qed

lemma exhausted_iff:
  "templates_provider d = Some f \<Longrightarrow>
     exhausted d used g = (\<forall>i<MAX_UNIQUE_ATTEMPTS. nth_draw f i g \<in> used)"
  by (auto simp: exhausted_def list_all_iff)

lemma exhausted_no_provider: "templates_provider d = None \<Longrightarrow> \<not> exhausted d used g"
  by (simp add: exhausted_def)

lemma get_unique_placeholder:
  "\<not> py_isdigit c \<or> templates_provider c = None \<Longrightarrow>
     get_unique_latex_for_digit c used g = Inr (eq_placeholder c, used, g)"
  by (auto simp: get_unique_latex_for_digit_def)

lemma get_unique_exhausted:
  assumes "templates_provider c = Some f" and "exhausted c used g"
  shows "get_unique_latex_for_digit c used g =
           Inr (nth_draw f MAX_UNIQUE_ATTEMPTS g, used, rng_after f (Suc MAX_UNIQUE_ATTEMPTS) g)"
proof -
  have ne: "\<And>g. fst (f g) \<noteq> []" using assms(1) by (rule provider_nonempty)
  from assms have "\<forall>i<MAX_UNIQUE_ATTEMPTS. nth_draw f i g \<in> used"
    by (simp add: exhausted_iff)
  from unique_attempts_exhausted [OF ne this] assms(1) provider_isdigit [OF assms(1)]
  show ?thesis by (simp add: get_unique_latex_for_digit_def)
qed

lemma first_fresh:
  assumes "\<not> (\<forall>i<n. P (i::nat))"
  shows "\<exists>j<n. (\<forall>i<j. P i) \<and> \<not> P j"
proof -
  from assms obtain m where m: "m < n" "\<not> P m" by auto
  define j where "j = (LEAST k. \<not> P k)"
  have a: "\<not> P j" unfolding j_def using m(2) by (rule LeastI)
  have "j \<le> m" unfolding j_def using m(2) by (rule Least_le)
  with m(1) have b: "j < n" by simp
  have c: "\<forall>i<j. P i" unfolding j_def using not_less_Least by blast
  from a b c show ?thesis by blast
qed

lemma get_unique_fresh:
  assumes p: "templates_provider c = Some f"
    and j: "j < MAX_UNIQUE_ATTEMPTS"
    and coll: "\<forall>i<j. nth_draw f i g \<in> used"
    and fresh: "nth_draw f j g \<notin> used"
  shows "get_unique_latex_for_digit c used g =
           Inr (nth_draw f j g, insert (nth_draw f j g) used, rng_after f (Suc j) g)"
proof -
  have ne: "\<And>g. fst (f g) \<noteq> []" using p by (rule provider_nonempty)
  from unique_attempts_fresh [OF ne j coll fresh] p provider_isdigit [OF p]
  show ?thesis by (simp add: get_unique_latex_for_digit_def)
qed

lemma get_unique_not_exhausted:
  assumes p: "templates_provider c = Some f" and ne: "\<not> exhausted c used g"
  shows "\<exists>e g'. get_unique_latex_for_digit c used g = Inr (e, insert e used, g') \<and> e \<notin> used"
proof -
  from p ne have "\<not> (\<forall>i<MAX_UNIQUE_ATTEMPTS. nth_draw f i g \<in> used)"
    by (simp add: exhausted_iff)
  from first_fresh [OF this] obtain j where
    "j < MAX_UNIQUE_ATTEMPTS" "\<forall>i<j. nth_draw f i g \<in> used" "nth_draw f j g \<notin> used" by blast
  from get_unique_fresh [OF p this] this(3) show ?thesis by blast
qed

lemma get_unique_total:
  "\<exists>e used' g'. get_unique_latex_for_digit c used g = Inr (e, used', g')"
proof (cases "templates_provider c")
  case None
  then show ?thesis by (simp add: get_unique_placeholder)
next
  case (Some f)
  show ?thesis
  proof (cases "exhausted c used g")
    case True
    from get_unique_exhausted [OF Some True] show ?thesis by blast
  next
    case False
    from get_unique_not_exhausted [OF Some False] show ?thesis by blast
  qed
qed

lemma get_unique_cases:
  assumes "get_unique_latex_for_digit c used g = Inr (e, used', g')"
  shows "(templates_provider c = None \<and> e = eq_placeholder c \<and> used' = used \<and> g' = g) \<or>
         (templates_provider c \<noteq> None \<and> exhausted c used g \<and> used' = used) \<or>
         (templates_provider c \<noteq> None \<and> \<not> exhausted c used g \<and> e \<notin> used \<and> used' = insert e used)"
proof (cases "templates_provider c")
  case None
  with assms show ?thesis by (simp add: get_unique_placeholder)
next
  case (Some f)
  show ?thesis
  proof (cases "exhausted c used g")
    case True
    from get_unique_exhausted [OF Some True] assms Some True show ?thesis by simp
  next
    case False
    from get_unique_not_exhausted [OF Some False] assms Some False show ?thesis by auto
  qed
qed

section \<open>The composition\<close>

lemma latex_for_digits_total:
  "\<exists>ts used' g'. latex_for_digits ds used g = Inr (ts, used', g')"
proof (induction ds arbitrary: used g)
  case Nil
  show ?case by simp
next
  case (Cons d ds)
  from get_unique_total [of d used g] obtain e u1 g1 where
    a: "get_unique_latex_for_digit d used g = Inr (e, u1, g1)" by blast
  from Cons.IH [of u1 g1] obtain ts u2 g2 where
    b: "latex_for_digits ds u1 g1 = Inr (ts, u2, g2)" by blast
  from a b show ?case by simp
qed

lemma latex_for_digits_values:
  "latex_for_digits ds used g = Inr (ts, used', g') \<Longrightarrow> digit_values ts = ds"
  by (induction ds arbitrary: used g ts) (auto split: sum.splits)

lemma latex_for_digits_append:
  "latex_for_digits (xs @ ys) used g =
     (case latex_for_digits xs used g of
        Inl e \<Rightarrow> Inl e
      | Inr (ts, used1, g1) \<Rightarrow>
          (case latex_for_digits ys used1 g1 of
             Inl e \<Rightarrow> Inl e
           | Inr (ts', used2, g2) \<Rightarrow> Inr (ts @ ts', used2, g2)))"
  by (induction xs arbitrary: used g) (auto split: sum.splits)

lemma digit_values_append: "digit_values (xs @ ys) = digit_values xs @ digit_values ys"
  by (induction xs rule: digit_values.induct) simp_all

lemma ten_split:
  "slice m 0 3 @ slice m 3 6 @ slice_from m 6 = m"
proof -
  have "take 3 m @ take 3 (drop 3 m) = take 6 m"
    using take_add [of 3 3 m] by simp
  then have "(take 3 m @ take 3 (drop 3 m)) @ drop 6 m = m"
    by (simp only: append_take_drop_id)
  then show ?thesis by (simp add: slice_def slice_from_def)
qed

lemma main_number_parts_total:
  "\<exists>ts used' g'. main_number_parts m used g = Inr (ts, used', g')"
proof (cases "length m = 10")
  case False
  then show ?thesis using latex_for_digits_total [of m used g]
    by (simp add: main_number_parts_def)
next
  case True
  from latex_for_digits_total obtain a u1 g1 where
    a: "latex_for_digits (slice m 0 3) used g = Inr (a, u1, g1)" by blast
  from latex_for_digits_total obtain b u2 g2 where
    b: "latex_for_digits (slice m 3 6) u1 g1 = Inr (b, u2, g2)" by blast
  from latex_for_digits_total obtain c u3 g3 where
    c: "latex_for_digits (slice_from m 6) u2 g2 = Inr (c, u3, g3)" by blast
  from True a b c show ?thesis by (simp add: main_number_parts_def)
qed

lemma main_number_parts_values:
  assumes "main_number_parts m used g = Inr (ts, used', g')"
  shows "digit_values ts = m"
proof (cases "length m = 10")
  case False
  with assms show ?thesis by (simp add: main_number_parts_def latex_for_digits_values)
next
  case True
  from True assms obtain a u1 g1 b u2 g2 c where
    a: "latex_for_digits (slice m 0 3) used g = Inr (a, u1, g1)" and
    b: "latex_for_digits (slice m 3 6) u1 g1 = Inr (b, u2, g2)" and
    c: "latex_for_digits (slice_from m 6) u2 g2 = Inr (c, used', g')" and
    ts: "ts = [Separator GroupOpen] @ a @ [Separator GroupClose, Separator MinorGap] @ b
              @ [Separator Dash] @ c"
    by (auto simp: main_number_parts_def split: sum.splits)
  have "digit_values ts = digit_values a @ digit_values b @ digit_values c"
    by (simp add: ts digit_values_append)
  also have "\<dots> = slice m 0 3 @ slice m 3 6 @ slice_from m 6"
    using a b c by (simp add: latex_for_digits_values)
  also have "\<dots> = m" by (rule ten_split)
  finally show ?thesis .
qed

lemma country_code_parts_total:
  "\<exists>ts used' g'. country_code_parts hp cc g = Inr (ts, used', g')"
proof (cases "cc = []")
  case True
  then show ?thesis by (simp add: country_code_parts_def)
next
  case False
  from latex_for_digits_total obtain a u1 g1 where
    "latex_for_digits cc {} g = Inr (a, u1, g1)" by blast
  with False show ?thesis by (simp add: country_code_parts_def)
qed

lemma country_code_parts_values:
  "country_code_parts hp cc g = Inr (ts, used', g') \<Longrightarrow> digit_values ts = cc"
  by (auto simp: country_code_parts_def Let_def digit_values_append latex_for_digits_values
      split: if_splits sum.splits)

lemma split_country_code_append:
  "split_country_code hp clean = (cc, m) \<Longrightarrow> cc @ m = clean"
  by (cases clean)
    (auto simp: split_country_code_def startswith_def slice_from_def split: if_splits)

lemma strip_empty_no_digits:
  assumes "py_strip s = []"
  shows "only_digits s = []"
proof -
  have sp: "py_isspace c \<Longrightarrow> \<not> py_isdigit c" for c
    by (auto simp: py_isspace_def py_isdigit_def Let_def)
  have "dropWhile py_isspace s = []"
  proof (rule ccontr)
    assume ne: "dropWhile py_isspace s \<noteq> []"
    then have "\<not> py_isspace (hd (dropWhile py_isspace s))" by (rule hd_dropWhile)
    moreover from assms have "\<forall>c \<in> set (dropWhile py_isspace s). py_isspace c"
      by (simp add: py_strip_def)
    ultimately show False using ne hd_in_set by blast
  qed
  then have "\<forall>c \<in> set s. py_isspace c" by simp
  with sp have "\<forall>c \<in> set s. \<not> py_isdigit c" by blast
  then show ?thesis by (simp add: only_digits_def filter_empty_conv)
qed

lemma compose_parts_error:
  assumes "compose_parts s g = Inl e"
  shows "only_digits s = [] \<and>
     (e = ValueError ''Phone number cannot be empty'' \<or>
      e = ValueError ''Phone number must contain at least one digit'')"
proof (cases "py_strip s = []")
  case True
  with assms show ?thesis by (simp add: compose_parts_def strip_empty_no_digits)
next
  case ne: False
  show ?thesis
  proof (cases "only_digits s = []")
    case True
    with ne assms show ?thesis by (simp add: compose_parts_def Let_def)
  next
    case False
    obtain cc m where sp:
      "split_country_code (startswith (py_strip s) ''+'') (only_digits s) = (cc, m)"
      by (cases "split_country_code (startswith (py_strip s) ''+'') (only_digits s)")
    from country_code_parts_total obtain p1 u1 g1 where
      a: "country_code_parts (startswith (py_strip s) ''+'') cc g = Inr (p1, u1, g1)" by blast
    from main_number_parts_total obtain p2 u2 g2 where
      b: "main_number_parts m u1 g1 = Inr (p2, u2, g2)" by blast
    from ne False sp a b have "\<exists>c. compose_parts s g = Inr c"
      by (simp add: compose_parts_def Let_def)
    with assms show ?thesis by simp
  qed
qed

lemma compose_parts_no_digits:
  assumes "only_digits s = []"
  shows "\<exists>m. compose_parts s g = Inl (ValueError m)"
  using assms by (simp add: compose_parts_def Let_def)

lemma compose_parts_total:
  assumes "only_digits s \<noteq> []"
  shows "\<exists>c. compose_parts s g = Inr c"
proof (cases "compose_parts s g")
  case (Inl e)
  from compose_parts_error [OF Inl] assms show ?thesis by simp
next
  case (Inr c)
  then show ?thesis by blast
qed

lemma compose_parts_fields:
  assumes "compose_parts s g = Inr c"
  shows "split_country_code (startswith (py_strip s) ''+'') (only_digits s)
           = (country_code_of c, main_number_of c) \<and>
         (\<exists>p1 u1 g1 p2.
            country_code_parts (startswith (py_strip s) ''+'') (country_code_of c) g
              = Inr (p1, u1, g1) \<and>
            main_number_parts (main_number_of c) u1 g1 = Inr (p2, used_formulas_of c, rng_of c) \<and>
            tokens_of c = p1 @ p2)"
  using assms
  by (auto simp: compose_parts_def Let_def split: if_splits prod.splits sum.splits)

lemma compose_parts_digits:
  assumes "compose_parts s g = Inr c"
  shows "digit_values (tokens_of c) = country_code_of c @ main_number_of c"
    and "country_code_of c @ main_number_of c = only_digits s"
proof -
  from compose_parts_fields [OF assms] obtain p1 u1 g1 p2 where
    sp: "split_country_code (startswith (py_strip s) ''+'') (only_digits s)
           = (country_code_of c, main_number_of c)" and
    cc: "country_code_parts (startswith (py_strip s) ''+'') (country_code_of c) g
           = Inr (p1, u1, g1)" and
    mn: "main_number_parts (main_number_of c) u1 g1 = Inr (p2, used_formulas_of c, rng_of c)" and
    ts: "tokens_of c = p1 @ p2" by blast
  show "digit_values (tokens_of c) = country_code_of c @ main_number_of c"
    using country_code_parts_values [OF cc] main_number_parts_values [OF mn]
    by (simp add: ts digit_values_append)
  show "country_code_of c @ main_number_of c = only_digits s"
    using sp by (rule split_country_code_append)
qed

lemma nth_draw_member:
  assumes "\<And>g. fst (f g) \<noteq> []"
  shows "nth_draw f k g \<in> set (fst (f (rng_after f k g)))"
proof -
  have "fst (drawn f h) \<in> set (fst (f h))" for h
    using assms [of h]
    by (simp add: drawn_def draw_template_def random_choice_def split_def Let_def)
  then show ?thesis by (simp add: nth_draw_def)
qed

text \<open>
  C7. The lookup of one character never raises. A character that is no digit, or a digit
  without a template provider, gets the placeholder, which embeds the character, and
  the state is unchanged. For a digit with templates, the first draw among the first
  \<open>MAX_UNIQUE_ATTEMPTS\<close> that is not in the used set is returned (and inserted); if all
  of them are in the used set, one more draw is made and returned as it is. Every draw is
  a template of the digit's collection.
\<close>

theorem get_unique_latex_for_digit_total:
  "(\<exists>e used' g'. get_unique_latex_for_digit c used g = Inr (e, used', g')) \<and>
   (\<not> py_isdigit c \<or> templates_provider c = None \<longrightarrow>
      get_unique_latex_for_digit c used g = Inr (eq_placeholder c, used, g) \<and>
      eq_placeholder c = bs # ''mathbf{'' @ bs # ''textit{('' @ [c] @ '')}}'') \<and>
   (\<forall>f. templates_provider c = Some f \<longrightarrow>
      (\<forall>j<MAX_UNIQUE_ATTEMPTS.
         (\<forall>i<j. nth_draw f i g \<in> used) \<and> nth_draw f j g \<notin> used \<longrightarrow>
         get_unique_latex_for_digit c used g =
           Inr (nth_draw f j g, insert (nth_draw f j g) used, rng_after f (Suc j) g)) \<and>
      ((\<forall>i<MAX_UNIQUE_ATTEMPTS. nth_draw f i g \<in> used) \<longrightarrow>
         get_unique_latex_for_digit c used g =
           Inr (nth_draw f MAX_UNIQUE_ATTEMPTS g, used, rng_after f (Suc MAX_UNIQUE_ATTEMPTS) g)) \<and>
      (\<forall>k. nth_draw f k g \<in> set (fst (f (rng_after f k g)))))"
proof (intro conjI allI impI)
  show "\<exists>e used' g'. get_unique_latex_for_digit c used g = Inr (e, used', g')"
    by (rule get_unique_total)
next
  assume "\<not> py_isdigit c \<or> templates_provider c = None"
  then show "get_unique_latex_for_digit c used g = Inr (eq_placeholder c, used, g)"
    by (rule get_unique_placeholder)
next
  show "eq_placeholder c = bs # ''mathbf{'' @ bs # ''textit{('' @ [c] @ '')}}''"
    by (simp add: eq_placeholder_def)
next
  fix f j
  assume "templates_provider c = Some f" "j < MAX_UNIQUE_ATTEMPTS"
    "(\<forall>i<j. nth_draw f i g \<in> used) \<and> nth_draw f j g \<notin> used"
  then show "get_unique_latex_for_digit c used g =
           Inr (nth_draw f j g, insert (nth_draw f j g) used, rng_after f (Suc j) g)"
    by (simp add: get_unique_fresh)
next
  fix f
  assume p: "templates_provider c = Some f" and "\<forall>i<MAX_UNIQUE_ATTEMPTS. nth_draw f i g \<in> used"
  then have "exhausted c used g" by (simp add: exhausted_iff)
  with p show "get_unique_latex_for_digit c used g =
      Inr (nth_draw f MAX_UNIQUE_ATTEMPTS g, used, rng_after f (Suc MAX_UNIQUE_ATTEMPTS) g)"
    by (rule get_unique_exhausted)
next
  fix f k
  assume "templates_provider c = Some f"
  then have "\<And>g. fst (f g) \<noteq> []" by (rule provider_nonempty)
  then show "nth_draw f k g \<in> set (fst (f (rng_after f k g)))" by (rule nth_draw_member)
qed

lemma provider_9: "templates_provider (CHR ''9'') = Some get_9_templates"
  by (simp add: templates_provider_def)

lemma get_9_rng: "snd (get_9_templates g) = g"
  by (simp add: get_9_templates_def)

lemma drawn_9_zero:
  "drawn get_9_templates zero_rng = (fst (get_9_templates zero_rng) ! 0, zero_rng)"
proof -
  have ne: "fst (get_9_templates zero_rng) \<noteq> []"
    using provider_9 by (rule provider_nonempty)
  have "get_9_templates zero_rng = (fst (get_9_templates zero_rng), zero_rng)"
    using get_9_rng [of zero_rng] by (simp add: prod_eq_iff)
  then have "draw_template get_9_templates zero_rng =
      random_choice (fst (get_9_templates zero_rng)) zero_rng"
    by (simp add: draw_template_def split_def get_9_rng)
  with ne show ?thesis
    by (simp add: drawn_def random_choice_def next_rand_zero)
qed

lemma rng_after_9_zero: "rng_after get_9_templates k zero_rng = zero_rng"
  by (induction k) (simp_all add: drawn_9_zero)

lemma nth_draw_9_zero: "nth_draw get_9_templates k zero_rng = fst (get_9_templates zero_rng) ! 0"
  by (simp add: nth_draw_def rng_after_9_zero drawn_9_zero)

theorem get_unique_latex_for_digit_total_witness:
  "get_unique_latex_for_digit (CHR ''a'') {} zero_rng
     = Inr (eq_placeholder (CHR ''a''), {}, zero_rng) \<and>
   get_unique_latex_for_digit (CHR ''9'') {} zero_rng
     = Inr (fst (get_9_templates zero_rng) ! 0, {fst (get_9_templates zero_rng) ! 0}, zero_rng) \<and>
   get_unique_latex_for_digit (CHR ''9'') {fst (get_9_templates zero_rng) ! 0} zero_rng
     = Inr (fst (get_9_templates zero_rng) ! 0, {fst (get_9_templates zero_rng) ! 0}, zero_rng)"
proof -
  have a: "\<not> py_isdigit (CHR ''a'')" by (simp add: py_isdigit_def)
  have b: "0 < MAX_UNIQUE_ATTEMPTS" by (simp add: MAX_UNIQUE_ATTEMPTS_def)
  have c: "(\<forall>i<0. nth_draw get_9_templates i zero_rng \<in> {}) \<and>
           nth_draw get_9_templates 0 zero_rng \<notin> {}" by simp
  have d: "\<forall>i<MAX_UNIQUE_ATTEMPTS. nth_draw get_9_templates i zero_rng
             \<in> {fst (get_9_templates zero_rng) ! 0}"
    by (simp add: nth_draw_9_zero)
  from get_unique_latex_for_digit_total [of "CHR ''a''" "{}" zero_rng] a
  have 1: "get_unique_latex_for_digit (CHR ''a'') {} zero_rng
     = Inr (eq_placeholder (CHR ''a''), {}, zero_rng)" by blast
  from get_unique_latex_for_digit_total [of "CHR ''9''" "{}" zero_rng] provider_9 b c
  have 2: "get_unique_latex_for_digit (CHR ''9'') {} zero_rng
     = Inr (nth_draw get_9_templates 0 zero_rng, insert (nth_draw get_9_templates 0 zero_rng) {},
            rng_after get_9_templates (Suc 0) zero_rng)" by blast
  from get_unique_latex_for_digit_total
         [of "CHR ''9''" "{fst (get_9_templates zero_rng) ! 0}" zero_rng] provider_9 d
  have 3: "get_unique_latex_for_digit (CHR ''9'') {fst (get_9_templates zero_rng) ! 0} zero_rng
     = Inr (nth_draw get_9_templates MAX_UNIQUE_ATTEMPTS zero_rng,
            {fst (get_9_templates zero_rng) ! 0},
            rng_after get_9_templates (Suc MAX_UNIQUE_ATTEMPTS) zero_rng)" by blast
  from 1 2 3 show ?thesis by (simp add: nth_draw_9_zero drawn_9_zero rng_after_9_zero)
qed


lemma template_exprs_append: "template_exprs (xs @ ys) = template_exprs xs @ template_exprs ys"
  by (induction xs rule: template_exprs.induct) simp_all

lemma latex_for_digits_used:
  "latex_for_digits ds used g = Inr (ts, used', g') \<Longrightarrow>
     used \<subseteq> used' \<and> used' \<subseteq> used \<union> set (template_exprs ts)"
proof (induction ds arbitrary: used g ts)
  case Nil
  then show ?case by simp
next
  case (Cons d ds)
  from Cons.prems obtain e u1 g1 ts1 where
    a: "get_unique_latex_for_digit d used g = Inr (e, u1, g1)" and
    b: "latex_for_digits ds u1 g1 = Inr (ts1, used', g')" and
    ts: "ts = Digit d e # ts1"
    by (auto split: sum.splits)
  from get_unique_cases [OF a]
  have "used \<subseteq> u1 \<and> u1 \<subseteq> used \<union> set (template_exprs [Digit d e])" by auto
  with Cons.IH [OF b] show ?case unfolding ts by auto
qed

lemma main_number_parts_used:
  assumes "main_number_parts m used g = Inr (ts, used', g')"
  shows "used \<subseteq> used' \<and> used' \<subseteq> used \<union> set (template_exprs ts)"
proof (cases "length m = 10")
  case False
  with assms show ?thesis by (simp add: main_number_parts_def latex_for_digits_used)
next
  case True
  from True assms obtain a u1 g1 b u2 g2 c where
    a: "latex_for_digits (slice m 0 3) used g = Inr (a, u1, g1)" and
    b: "latex_for_digits (slice m 3 6) u1 g1 = Inr (b, u2, g2)" and
    c: "latex_for_digits (slice_from m 6) u2 g2 = Inr (c, used', g')" and
    ts: "ts = [Separator GroupOpen] @ a @ [Separator GroupClose, Separator MinorGap] @ b
              @ [Separator Dash] @ c"
    by (auto simp: main_number_parts_def split: sum.splits)
  have "template_exprs ts = template_exprs a @ template_exprs b @ template_exprs c"
    by (simp add: ts template_exprs_append)
  with latex_for_digits_used [OF a] latex_for_digits_used [OF b] latex_for_digits_used [OF c]
  show ?thesis by auto
qed

lemma country_code_parts_used:
  "country_code_parts hp cc g = Inr (ts, used', g') \<Longrightarrow> used' \<subseteq> set (template_exprs ts)"
  by (auto simp: country_code_parts_def Let_def template_exprs_append
      dest!: latex_for_digits_used split: if_splits sum.splits)

lemma compose_parts_used:
  assumes "compose_parts s g = Inr c"
  shows "used_formulas_of c \<subseteq> set (template_exprs (tokens_of c))"
proof -
  from compose_parts_fields [OF assms] obtain p1 u1 g1 p2 hp where
    cc: "country_code_parts hp (country_code_of c) g = Inr (p1, u1, g1)" and
    mn: "main_number_parts (main_number_of c) u1 g1 = Inr (p2, used_formulas_of c, rng_of c)" and
    ts: "tokens_of c = p1 @ p2" by blast
  from country_code_parts_used [OF cc] main_number_parts_used [OF mn]
  show ?thesis by (auto simp: ts template_exprs_append)
qed

lemma only_digits_scenario_a: "only_digits ''+15551234567'' = ''15551234567''"
  by (simp add: only_digits_def py_isdigit_def)

text \<open>
  C5. With a leading plus sign (after white space is stripped) and eleven digits that start
  with 1, the country code is 1 and the main number the ten digits left; else with a
  plus sign and more than ten digits, the main number is the last ten digits and the
  country code what is before them; otherwise there is no country code and the main
  number is the whole digit sequence. The input \<open>+15551234567\<close> gives the country code
  \<open>1\<close> and the main number \<open>5551234567\<close>.
\<close>

theorem country_code_segmentation:
  "(only_digits s \<noteq> [] \<longrightarrow>
     (\<exists>c. compose_parts s g = Inr c \<and>
       (let clean = only_digits s; has_plus = startswith (py_strip s) ''+'' in
         (has_plus \<and> length clean = 11 \<and> hd clean = CHR ''1'' \<longrightarrow>
            country_code_of c = ''1'' \<and> main_number_of c = drop 1 clean \<and>
            length (main_number_of c) = 10) \<and>
         (has_plus \<and> length clean > 10 \<and> \<not> (length clean = 11 \<and> hd clean = CHR ''1'') \<longrightarrow>
            country_code_of c = take (length clean - 10) clean \<and>
            main_number_of c = drop (length clean - 10) clean \<and>
            length (main_number_of c) = 10) \<and>
         (\<not> (has_plus \<and> length clean > 10) \<longrightarrow>
            country_code_of c = [] \<and> main_number_of c = clean)))) \<and>
   (\<exists>c. compose_parts ''+15551234567'' g = Inr c \<and>
        country_code_of c = ''1'' \<and> main_number_of c = ''5551234567'')"
proof (intro conjI impI)
  assume "only_digits s \<noteq> []"
  from compose_parts_total [OF this] obtain c where c: "compose_parts s g = Inr c" by blast
  from compose_parts_fields [OF c] have
    sp: "split_country_code (startswith (py_strip s) ''+'') (only_digits s)
           = (country_code_of c, main_number_of c)" by blast
  have "(let clean = only_digits s; has_plus = startswith (py_strip s) ''+'' in
         (has_plus \<and> length clean = 11 \<and> hd clean = CHR ''1'' \<longrightarrow>
            country_code_of c = ''1'' \<and> main_number_of c = drop 1 clean \<and>
            length (main_number_of c) = 10) \<and>
         (has_plus \<and> length clean > 10 \<and> \<not> (length clean = 11 \<and> hd clean = CHR ''1'') \<longrightarrow>
            country_code_of c = take (length clean - 10) clean \<and>
            main_number_of c = drop (length clean - 10) clean \<and>
            length (main_number_of c) = 10) \<and>
         (\<not> (has_plus \<and> length clean > 10) \<longrightarrow>
            country_code_of c = [] \<and> main_number_of c = clean))"
  proof -
    have cc: "country_code_of c
                = fst (split_country_code (startswith (py_strip s) ''+'') (only_digits s))"
      and mn: "main_number_of c
                = snd (split_country_code (startswith (py_strip s) ''+'') (only_digits s))"
      by (simp_all add: sp)
    show ?thesis
      unfolding cc mn
      by (cases "only_digits s")
        (auto simp: split_country_code_def startswith_def slice_from_def Let_def)
  qed
  with c show "\<exists>c. compose_parts s g = Inr c \<and>
       (let clean = only_digits s; has_plus = startswith (py_strip s) ''+'' in
         (has_plus \<and> length clean = 11 \<and> hd clean = CHR ''1'' \<longrightarrow>
            country_code_of c = ''1'' \<and> main_number_of c = drop 1 clean \<and>
            length (main_number_of c) = 10) \<and>
         (has_plus \<and> length clean > 10 \<and> \<not> (length clean = 11 \<and> hd clean = CHR ''1'') \<longrightarrow>
            country_code_of c = take (length clean - 10) clean \<and>
            main_number_of c = drop (length clean - 10) clean \<and>
            length (main_number_of c) = 10) \<and>
         (\<not> (has_plus \<and> length clean > 10) \<longrightarrow>
            country_code_of c = [] \<and> main_number_of c = clean))" by blast
next
  have "only_digits ''+15551234567'' \<noteq> []" by (simp add: only_digits_scenario_a)
  from compose_parts_total [OF this] obtain c where
    c: "compose_parts ''+15551234567'' g = Inr c" by blast
  have st: "py_strip ''+15551234567'' = ''+15551234567''"
    by (simp add: py_strip_def py_isspace_def)
  from compose_parts_fields [OF c] have
    "split_country_code (startswith (py_strip ''+15551234567'') ''+'')
       (only_digits ''+15551234567'') = (country_code_of c, main_number_of c)" by blast
  then have "country_code_of c = ''1'' \<and> main_number_of c = ''5551234567''"
    by (simp add: st only_digits_scenario_a split_country_code_def startswith_def slice_from_def)
  with c show "\<exists>c. compose_parts ''+15551234567'' g = Inr c \<and>
        country_code_of c = ''1'' \<and> main_number_of c = ''5551234567''" by blast
qed


theorem country_code_segmentation_witness:
  "(\<exists>c. compose_parts ''+15551234567'' zero_rng = Inr c \<and>
        country_code_of c = ''1'' \<and> main_number_of c = ''5551234567'') \<and>
   (\<exists>c. compose_parts ''+445551234567'' zero_rng = Inr c \<and>
        country_code_of c = ''44'' \<and> main_number_of c = ''5551234567'') \<and>
   (\<exists>c. compose_parts ''5551234567'' zero_rng = Inr c \<and>
        country_code_of c = [] \<and> main_number_of c = ''5551234567'')"
proof -
  have a: "only_digits ''+15551234567'' = ''15551234567''"
    "only_digits ''+445551234567'' = ''445551234567''"
    "only_digits ''5551234567'' = ''5551234567''"
    by (simp_all add: only_digits_def py_isdigit_def)
  have b: "startswith (py_strip ''+15551234567'') ''+''"
    "startswith (py_strip ''+445551234567'') ''+''"
    "\<not> startswith (py_strip ''5551234567'') ''+''"
    by (simp_all add: startswith_def py_strip_def py_isspace_def)
  from country_code_segmentation [of "''+15551234567''" zero_rng] a(1) b(1)
  have 1: "\<exists>c. compose_parts ''+15551234567'' zero_rng = Inr c \<and>
        country_code_of c = ''1'' \<and> main_number_of c = ''5551234567''"
    by (auto simp: Let_def)
  from country_code_segmentation [of "''+445551234567''" zero_rng] a(2) b(2)
  have 2: "\<exists>c. compose_parts ''+445551234567'' zero_rng = Inr c \<and>
        country_code_of c = ''44'' \<and> main_number_of c = ''5551234567''"
    by (auto simp: Let_def)
  from country_code_segmentation [of "''5551234567''" zero_rng] a(3) b(3)
  have 3: "\<exists>c. compose_parts ''5551234567'' zero_rng = Inr c \<and>
        country_code_of c = [] \<and> main_number_of c = ''5551234567''"
    by (auto simp: Let_def)
  from 1 2 3 show ?thesis by blast
qed

lemma only_digits_empty_iff: "only_digits s = [] \<longleftrightarrow> \<not> (\<exists>ch \<in> set s. py_isdigit ch)"
  by (simp add: only_digits_def filter_empty_conv)

text \<open>
  C6. \<^verbatim>\<open>generate_latex_for_number\<close> raises a ValueError exactly when the input has no
  digit, whatever the renderer does. The composition itself fails exactly on these inputs
  and only with a ValueError: on an input with a digit it returns, for every random
  sequence.
\<close>

theorem empty_input_error:
  "((\<exists>m. generate_latex_for_number render s signature_text g = Inl (ValueError m))
      \<longleftrightarrow> \<not> (\<exists>ch \<in> set s. py_isdigit ch)) \<and>
   ((\<exists>e. compose_parts s g = Inl e) \<longleftrightarrow> \<not> (\<exists>ch \<in> set s. py_isdigit ch)) \<and>
   (\<forall>e. compose_parts s g = Inl e \<longrightarrow> (\<exists>m. e = ValueError m)) \<and>
   ((\<exists>ch \<in> set s. py_isdigit ch) \<longrightarrow> (\<exists>c. compose_parts s g = Inr c))"
proof -
  have err: "\<exists>m. e = ValueError m" if "compose_parts s g = Inl e" for e
    using compose_parts_error [OF that] by blast
  have none: "\<exists>m. compose_parts s g = Inl (ValueError m)" if "only_digits s = []"
    using that by (rule compose_parts_no_digits)
  have some: "\<exists>c. compose_parts s g = Inr c" if "only_digits s \<noteq> []"
    using that by (rule compose_parts_total)
  have gen: "(\<exists>m. generate_latex_for_number render s signature_text g = Inl (ValueError m))
      \<longleftrightarrow> only_digits s = []"
  proof (cases "only_digits s = []")
    case True
    from none [OF True] obtain m where "compose_parts s g = Inl (ValueError m)" by blast
    then have "generate_latex_for_number render s signature_text g = Inl (ValueError m)"
      by (simp add: generate_latex_for_number_def)
    with True show ?thesis by blast
  next
    case False
    from some [OF False] obtain c where "compose_parts s g = Inr c" by blast
    then have "\<not> (\<exists>m. generate_latex_for_number render s signature_text g = Inl (ValueError m))"
      by (auto simp: generate_latex_for_number_def Let_def split: prod.splits option.splits)
    with False show ?thesis by blast
  qed
  have cmp: "(\<exists>e. compose_parts s g = Inl e) \<longleftrightarrow> only_digits s = []"
    using none some compose_parts_error by (cases "only_digits s = []") auto
  show ?thesis
    using gen cmp err some by (simp add: only_digits_empty_iff)
qed

theorem empty_input_error_witness:
  "(\<exists>m. compose_parts [] zero_rng = Inl (ValueError m)) \<and>
   (\<exists>m. compose_parts ''   '' zero_rng = Inl (ValueError m)) \<and>
   (\<exists>m. compose_parts ''+()-'' zero_rng = Inl (ValueError m)) \<and>
   (\<exists>ch \<in> set ''+15551234567''. py_isdigit ch) \<and>
   (\<exists>c. compose_parts ''+15551234567'' zero_rng = Inr c)"
proof -
  have a: "\<not> (\<exists>ch \<in> set []. py_isdigit ch)" "\<not> (\<exists>ch \<in> set ''   ''. py_isdigit ch)"
    "\<not> (\<exists>ch \<in> set ''+()-''. py_isdigit ch)"
    by (simp_all add: py_isdigit_def)
  have b: "\<exists>ch \<in> set ''+15551234567''. py_isdigit ch" by (simp add: py_isdigit_def)
  from empty_input_error [of "\<lambda>d. (None, [])" "[]" "[]" zero_rng] a(1)
  have 1: "\<exists>m. compose_parts [] zero_rng = Inl (ValueError m)" by blast
  from empty_input_error [of "\<lambda>d. (None, [])" "''   ''" "[]" zero_rng] a(2)
  have 2: "\<exists>m. compose_parts ''   '' zero_rng = Inl (ValueError m)" by blast
  from empty_input_error [of "\<lambda>d. (None, [])" "''+()-''" "[]" zero_rng] a(3)
  have 3: "\<exists>m. compose_parts ''+()-'' zero_rng = Inl (ValueError m)" by blast
  from empty_input_error [of "\<lambda>d. (None, [])" "''+15551234567''" "[]" zero_rng] b
  have 4: "\<exists>c. compose_parts ''+15551234567'' zero_rng = Inr c" by blast
  from 1 2 3 4 b show ?thesis by blast
qed

section \<open>Uniqueness of the emitted expressions\<close>

lemma get_9_length: "length (fst (get_9_templates g)) = 25"
  by (simp add: get_9_templates_def)

lemma drawn_9:
  "drawn get_9_templates g = (fst (get_9_templates g) ! (g 0 mod 25), \<lambda>i. g (Suc i))"
proof -
  have ne: "fst (get_9_templates g) \<noteq> []"
    using provider_9 by (rule provider_nonempty)
  have "draw_template get_9_templates g = random_choice (fst (get_9_templates g)) g"
    by (simp add: draw_template_def split_def get_9_rng)
  with ne show ?thesis
    by (simp add: drawn_def random_choice_def next_rand_def get_9_length)
qed

lemma get_9_constant: "fst (get_9_templates g) = fst (get_9_templates zero_rng)"
  by (simp add: get_9_templates_def)

lemma lookup_9_fresh:
  "get_unique_latex_for_digit (CHR ''9'') {} zero_rng
     = Inr (fst (get_9_templates zero_rng) ! 0, {fst (get_9_templates zero_rng) ! 0}, zero_rng)"
  using get_unique_fresh [OF provider_9, of 0 zero_rng "{}"]
  by (simp add: MAX_UNIQUE_ATTEMPTS_def nth_draw_9_zero drawn_9_zero)

lemma lookup_9_exhausted:
  "get_unique_latex_for_digit (CHR ''9'') {fst (get_9_templates zero_rng) ! 0} zero_rng
     = Inr (fst (get_9_templates zero_rng) ! 0, {fst (get_9_templates zero_rng) ! 0}, zero_rng)"
proof -
  have "exhausted (CHR ''9'') {fst (get_9_templates zero_rng) ! 0} zero_rng"
    by (simp add: exhausted_iff [OF provider_9] nth_draw_9_zero)
  from get_unique_exhausted [OF provider_9 this] show ?thesis
    by (simp add: nth_draw_9_zero drawn_9_zero rng_after_9_zero)
qed

lemma compose_parts_plain:
  assumes "py_strip s = s" and "only_digits s = s" and "s \<noteq> []" and "length s \<noteq> 10"
    and "hd s \<noteq> CHR ''+''"
    and "latex_for_digits s {} g = Inr (ts, used', g')"
  shows "compose_parts s g = Inr \<lparr>country_code_of = [], main_number_of = s, tokens_of = ts,
           used_formulas_of = used', rng_of = g'\<rparr>"
proof -
  from assms(3,5) have "\<not> startswith s ''+''"
    by (cases s) (simp_all add: startswith_def)
  with assms show ?thesis
    by (simp add: compose_parts_def Let_def split_country_code_def country_code_parts_def
        main_number_parts_def)
qed

text \<open>
  C4, as stated, fails. For the input \<open>99\<close> and the random sequence whose outcomes are
  all 0, the digit 9 occurs twice and has 25 templates, the first lookup takes the first
  template, the fifteen draws of the second lookup all give it again, and the final draw
  returns it a second time.
\<close>

theorem duplicate_after_exhaustion_counterexample:
  "only_digits ''99'' = ''99'' \<and>
   length (fst (get_9_templates zero_rng)) = 25 \<and>
   map_sum id tokens_of (compose_parts ''99'' zero_rng)
     = Inr [Digit (CHR ''9'') (fst (get_9_templates zero_rng) ! 0),
            Digit (CHR ''9'') (fst (get_9_templates zero_rng) ! 0)] \<and>
   map_sum id (exprs_for (CHR ''9'') \<circ> tokens_of) (compose_parts ''99'' zero_rng)
     = Inr [fst (get_9_templates zero_rng) ! 0, fst (get_9_templates zero_rng) ! 0] \<and>
   fst (get_9_templates zero_rng) ! 0
     = bs # ''left( '' @ bs # ''text{dim}('' @ bs # ''mathfrak{so}(3) '' @ bs # ''otimes ''
         @ bs # ''mathfrak{so}(3)) '' @ bs # ''right)''"
proof -
  have a: "only_digits ''99'' = ''99''" by (simp add: only_digits_def py_isdigit_def)
  have b: "py_strip ''99'' = ''99''" by (simp add: py_strip_def py_isspace_def)
  have c: "latex_for_digits ''99'' {} zero_rng
     = Inr ([Digit (CHR ''9'') (fst (get_9_templates zero_rng) ! 0),
             Digit (CHR ''9'') (fst (get_9_templates zero_rng) ! 0)],
            {fst (get_9_templates zero_rng) ! 0}, zero_rng)"
    by (simp add: lookup_9_fresh lookup_9_exhausted)
  have d: "compose_parts ''99'' zero_rng = Inr \<lparr>country_code_of = [], main_number_of = ''99'',
      tokens_of = [Digit (CHR ''9'') (fst (get_9_templates zero_rng) ! 0),
                   Digit (CHR ''9'') (fst (get_9_templates zero_rng) ! 0)],
      used_formulas_of = {fst (get_9_templates zero_rng) ! 0}, rng_of = zero_rng\<rparr>"
    by (rule compose_parts_plain [OF b a _ _ _ c]) simp_all
  have e: "fst (get_9_templates zero_rng) ! 0
     = bs # ''left( '' @ bs # ''text{dim}('' @ bs # ''mathfrak{so}(3) '' @ bs # ''otimes ''
         @ bs # ''mathfrak{so}(3)) '' @ bs # ''right)''"
    by (simp add: get_9_templates_def)
  show ?thesis
    apply (intro conjI)
        apply (rule a)
       apply (rule get_9_length)
      apply (simp add: d)
     apply (simp add: d)
    apply (rule e)
    done
qed

lemma exprs_for_append: "exprs_for d (xs @ ys) = exprs_for d xs @ exprs_for d ys"
  by (induction d xs rule: exprs_for.induct) simp_all

lemma latex_for_digits_distinct:
  "latex_for_digits ds used g = Inr (ts, used', g') \<Longrightarrow> no_exhaustion ds used g \<Longrightarrow>
     distinct (template_exprs ts) \<and> set (template_exprs ts) \<inter> used = {} \<and>
     used' = used \<union> set (template_exprs ts)"
proof (induction ds arbitrary: used g ts)
  case Nil
  then show ?case by simp
next
  case (Cons d ds)
  from Cons.prems(1) obtain e u1 g1 ts1 where
    a: "get_unique_latex_for_digit d used g = Inr (e, u1, g1)" and
    b: "latex_for_digits ds u1 g1 = Inr (ts1, used', g')" and
    ts: "ts = Digit d e # ts1"
    by (auto split: sum.splits)
  from Cons.prems(2) a have ne: "\<not> exhausted d used g" and rest: "no_exhaustion ds u1 g1"
    by simp_all
  from Cons.IH [OF b rest] have ih: "distinct (template_exprs ts1)"
    "set (template_exprs ts1) \<inter> u1 = {}" "used' = u1 \<union> set (template_exprs ts1)" by simp_all
  from get_unique_cases [OF a] ne
  have "(templates_provider d = None \<and> u1 = used) \<or>
        (templates_provider d \<noteq> None \<and> e \<notin> used \<and> u1 = insert e used)" by auto
  then show ?case
  proof
    assume "templates_provider d = None \<and> u1 = used"
    with ih show ?thesis by (simp add: ts)
  next
    assume "templates_provider d \<noteq> None \<and> e \<notin> used \<and> u1 = insert e used"
    with ih show ?thesis by (auto simp: ts)
  qed
qed

lemma main_number_parts_digits:
  assumes "main_number_parts m used g = Inr (ps, used', g')"
  shows "\<exists>ts. latex_for_digits m used g = Inr (ts, used', g') \<and>
              template_exprs ps = template_exprs ts \<and>
              (\<forall>d. exprs_for d ps = exprs_for d ts)"
proof (cases "length m = 10")
  case False
  with assms show ?thesis by (simp add: main_number_parts_def)
next
  case True
  from True assms obtain a u1 g1 b u2 g2 c where
    a: "latex_for_digits (slice m 0 3) used g = Inr (a, u1, g1)" and
    b: "latex_for_digits (slice m 3 6) u1 g1 = Inr (b, u2, g2)" and
    c: "latex_for_digits (slice_from m 6) u2 g2 = Inr (c, used', g')" and
    ps: "ps = [Separator GroupOpen] @ a @ [Separator GroupClose, Separator MinorGap] @ b
              @ [Separator Dash] @ c"
    by (auto simp: main_number_parts_def split: sum.splits)
  have "latex_for_digits (slice m 0 3 @ slice m 3 6 @ slice_from m 6) used g
          = Inr (a @ b @ c, used', g')"
    using a b c by (simp add: latex_for_digits_append)
  then have "latex_for_digits m used g = Inr (a @ b @ c, used', g')"
    by (simp only: ten_split)
  moreover have "template_exprs ps = template_exprs (a @ b @ c)"
    by (simp add: ps template_exprs_append)
  moreover have "exprs_for d ps = exprs_for d (a @ b @ c)" for d
    by (simp add: ps exprs_for_append)
  ultimately show ?thesis by blast
qed


lemma country_code_parts_digits:
  assumes "country_code_parts hp cc g = Inr (ps, used', g')"
  shows "\<exists>ts. latex_for_digits cc {} g = Inr (ts, used', g') \<and>
              template_exprs ps = template_exprs ts \<and>
              (\<forall>d. exprs_for d ps = exprs_for d ts)"
proof (cases "cc = []")
  case True
  with assms show ?thesis by (auto simp: country_code_parts_def)
next
  case False
  with assms show ?thesis
    by (auto simp: country_code_parts_def Let_def template_exprs_append exprs_for_append
        split: sum.splits)
qed

lemma compose_parts_lookups:
  assumes "compose_parts s g = Inr c"
  shows "\<exists>ts. latex_for_digits (only_digits s) {} g = Inr (ts, used_formulas_of c, rng_of c) \<and>
              template_exprs (tokens_of c) = template_exprs ts \<and>
              (\<forall>d. exprs_for d (tokens_of c) = exprs_for d ts)"
proof -
  from compose_parts_fields [OF assms] obtain p1 u1 g1 p2 hp where
    cc: "country_code_parts hp (country_code_of c) g = Inr (p1, u1, g1)" and
    mn: "main_number_parts (main_number_of c) u1 g1 = Inr (p2, used_formulas_of c, rng_of c)" and
    ts: "tokens_of c = p1 @ p2" by blast
  from country_code_parts_digits [OF cc] obtain t1 where
    t1: "latex_for_digits (country_code_of c) {} g = Inr (t1, u1, g1)"
      "template_exprs p1 = template_exprs t1" "\<forall>d. exprs_for d p1 = exprs_for d t1" by blast
  from main_number_parts_digits [OF mn] obtain t2 where
    t2: "latex_for_digits (main_number_of c) u1 g1 = Inr (t2, used_formulas_of c, rng_of c)"
      "template_exprs p2 = template_exprs t2" "\<forall>d. exprs_for d p2 = exprs_for d t2" by blast
  have "latex_for_digits (country_code_of c @ main_number_of c) {} g
          = Inr (t1 @ t2, used_formulas_of c, rng_of c)"
    using t1(1) t2(1) by (simp add: latex_for_digits_append)
  then have "latex_for_digits (only_digits s) {} g = Inr (t1 @ t2, used_formulas_of c, rng_of c)"
    by (simp only: compose_parts_digits(2) [OF assms])
  moreover have "template_exprs (tokens_of c) = template_exprs (t1 @ t2)"
    by (simp add: ts template_exprs_append t1(2) t2(2))
  moreover have "\<forall>d. exprs_for d (tokens_of c) = exprs_for d (t1 @ t2)"
    by (simp add: ts exprs_for_append t1(3) t2(3))
  ultimately show ?thesis by blast
qed

lemma exprs_for_subset:
  "templates_provider d \<noteq> None \<Longrightarrow> set (exprs_for d ts) \<subseteq> set (template_exprs ts)"
  by (induction d ts rule: exprs_for.induct) auto

lemma exprs_for_distinct:
  "templates_provider d \<noteq> None \<Longrightarrow> distinct (template_exprs ts) \<Longrightarrow> distinct (exprs_for d ts)"
proof (induction d ts rule: exprs_for.induct)
  case (2 d d' latex_str ts)
  then show ?case using exprs_for_subset [of d ts] by (auto split: if_splits)
qed simp_all

text \<open>
  C4, amended. If no lookup of the composition is exhausted (each finds, among its
  fifteen draws, one that is not in the used set), then the expressions emitted for the
  digits with templates are pairwise distinct, in particular those emitted for one digit,
  and they are the used set at the end.
\<close>

theorem uniqueness_without_exhaustion:
  "no_exhaustion (only_digits s) {} g \<Longrightarrow> compose_parts s g = Inr c \<Longrightarrow>
     distinct (template_exprs (tokens_of c)) \<and>
     (\<forall>d. templates_provider d \<noteq> None \<longrightarrow> distinct (exprs_for d (tokens_of c))) \<and>
     used_formulas_of c = set (template_exprs (tokens_of c))"
proof -
  assume ne: "no_exhaustion (only_digits s) {} g" and c: "compose_parts s g = Inr c"
  from compose_parts_lookups [OF c] obtain ts where
    ts: "latex_for_digits (only_digits s) {} g = Inr (ts, used_formulas_of c, rng_of c)"
      "template_exprs (tokens_of c) = template_exprs ts" by blast
  from latex_for_digits_distinct [OF ts(1) ne] ts(2)
  have d: "distinct (template_exprs (tokens_of c))"
    and u: "used_formulas_of c = set (template_exprs (tokens_of c))" by simp_all
  from d u exprs_for_distinct show ?thesis by blast
qed

lemma get_9_first_two:
  "fst (get_9_templates zero_rng) ! 0 \<noteq> fst (get_9_templates zero_rng) ! 1"
  by (simp add: get_9_templates_def)

lemma lookup_9_count_first:
  "get_unique_latex_for_digit (CHR ''9'') {} count_rng
     = Inr (fst (get_9_templates zero_rng) ! 0, {fst (get_9_templates zero_rng) ! 0}, Suc)"
  using get_unique_fresh [OF provider_9, of 0 count_rng "{}"]
  by (simp add: MAX_UNIQUE_ATTEMPTS_def nth_draw_def drawn_9 count_rng_def
      get_9_constant [of "\<lambda>i. i"])

lemma lookup_9_count_second:
  "get_unique_latex_for_digit (CHR ''9'') {fst (get_9_templates zero_rng) ! 0} Suc
     = Inr (fst (get_9_templates zero_rng) ! 1,
            {fst (get_9_templates zero_rng) ! 1, fst (get_9_templates zero_rng) ! 0},
            \<lambda>i. Suc (Suc i))"
  using get_unique_fresh [OF provider_9, of 0 Suc "{fst (get_9_templates zero_rng) ! 0}"]
    get_9_first_two
  by (simp add: MAX_UNIQUE_ATTEMPTS_def nth_draw_def drawn_9 get_9_constant [of Suc])

lemma not_exhausted_9_count:
  "\<not> exhausted (CHR ''9'') {} count_rng"
  "\<not> exhausted (CHR ''9'') {fst (get_9_templates zero_rng) ! 0} Suc"
  using get_9_first_two
  by (auto simp: exhausted_iff [OF provider_9] MAX_UNIQUE_ATTEMPTS_def nth_draw_def drawn_9
      get_9_constant [of Suc] intro!: exI [of _ 0])

theorem uniqueness_without_exhaustion_witness:
  "no_exhaustion (only_digits ''99'') {} count_rng \<and>
   map_sum id (exprs_for (CHR ''9'') \<circ> tokens_of) (compose_parts ''99'' count_rng)
     = Inr [fst (get_9_templates zero_rng) ! 0, fst (get_9_templates zero_rng) ! 1] \<and>
   distinct [fst (get_9_templates zero_rng) ! 0, fst (get_9_templates zero_rng) ! 1]"
proof -
  have a: "only_digits ''99'' = ''99''" by (simp add: only_digits_def py_isdigit_def)
  have b: "py_strip ''99'' = ''99''" by (simp add: py_strip_def py_isspace_def)
  have ne: "no_exhaustion (only_digits ''99'') {} count_rng"
    by (simp add: a not_exhausted_9_count lookup_9_count_first lookup_9_count_second)
  have l: "latex_for_digits ''99'' {} count_rng
     = Inr ([Digit (CHR ''9'') (fst (get_9_templates zero_rng) ! 0),
             Digit (CHR ''9'') (fst (get_9_templates zero_rng) ! 1)],
            {fst (get_9_templates zero_rng) ! 1, fst (get_9_templates zero_rng) ! 0},
            \<lambda>i. Suc (Suc i))"
    by (simp add: lookup_9_count_first lookup_9_count_second)
  have c: "compose_parts ''99'' count_rng = Inr \<lparr>country_code_of = [], main_number_of = ''99'',
      tokens_of = [Digit (CHR ''9'') (fst (get_9_templates zero_rng) ! 0),
                   Digit (CHR ''9'') (fst (get_9_templates zero_rng) ! 1)],
      used_formulas_of = {fst (get_9_templates zero_rng) ! 1, fst (get_9_templates zero_rng) ! 0},
      rng_of = \<lambda>i. Suc (Suc i)\<rparr>"
    by (rule compose_parts_plain [OF b a _ _ _ l]) simp_all
  from uniqueness_without_exhaustion [OF ne c] provider_9
  have "distinct (exprs_for (CHR ''9'')
            [Digit (CHR ''9'') (fst (get_9_templates zero_rng) ! 0),
             Digit (CHR ''9'') (fst (get_9_templates zero_rng) ! 1)])"
    by simp
  with ne c show ?thesis by simp
qed

section \<open>Line wrapping\<close>

lemma provider_templates_left:
  "templates_provider c = Some f \<Longrightarrow> list_all (\<lambda>t. take 2 t = [bs, CHR ''l'']) (fst (f g))"
  by (auto simp: templates_provider_def get_0_templates_def get_1_templates_def
      get_2_templates_def get_3_templates_def get_4_templates_def get_5_templates_def
      get_6_templates_def get_7_templates_def get_8_templates_def get_9_templates_def
      split_def Let_def split: if_splits)

lemma template_not_group_open:
  assumes "templates_provider c = Some f" and "t \<in> set (fst (f g))"
  shows "t \<noteq> group_open"
proof -
  from provider_templates_left [where f=f and g=g, OF assms(1)] assms(2)
  have "take 2 t = [bs, CHR ''l'']" by (simp add: list_all_iff)
  then show ?thesis by (auto simp: group_open_def)
qed

lemma placeholder_not_group_open: "eq_placeholder c \<noteq> group_open"
  by (simp add: eq_placeholder_def group_open_def)

lemma get_unique_not_group_open:
  assumes "get_unique_latex_for_digit c used g = Inr (e, used', g')"
  shows "e \<noteq> group_open"
proof (cases "templates_provider c")
  case None
  with assms have "e = eq_placeholder c" by (auto simp: get_unique_placeholder)
  then show ?thesis by (simp add: placeholder_not_group_open)
next
  case (Some f)
  have ne: "\<And>g. fst (f g) \<noteq> []" using Some by (rule provider_nonempty)
  have "\<exists>k. e = nth_draw f k g"
  proof (cases "exhausted c used g")
    case True
    from get_unique_exhausted [OF Some True] assms show ?thesis by auto
  next
    case False
    with Some have "\<not> (\<forall>i<MAX_UNIQUE_ATTEMPTS. nth_draw f i g \<in> used)"
      by (simp add: exhausted_iff)
    from first_fresh [OF this] obtain j where
      "j < MAX_UNIQUE_ATTEMPTS" "\<forall>i<j. nth_draw f i g \<in> used" "nth_draw f j g \<notin> used" by blast
    from get_unique_fresh [OF Some this] assms show ?thesis by auto
  qed
  then obtain k where k: "e = nth_draw f k g" by blast
  note m = nth_draw_member [where f=f and k=k and g=g, OF ne]
  from template_not_group_open [where f=f and g="rng_after f k g", OF Some m] k
  show ?thesis by simp
qed

lemma latex_for_digits_shape:
  "latex_for_digits ds used g = Inr (ts, used', g') \<Longrightarrow>
     length ts = length ds \<and> group_open \<notin> set (map token_latex ts)"
proof (induction ds arbitrary: used g ts)
  case Nil
  then show ?case by simp
next
  case (Cons d ds)
  from Cons.prems obtain e u1 g1 ts1 where
    a: "get_unique_latex_for_digit d used g = Inr (e, u1, g1)" and
    b: "latex_for_digits ds u1 g1 = Inr (ts1, used', g')" and
    ts: "ts = Digit d e # ts1"
    by (auto split: sum.splits)
  from Cons.IH [OF b] get_unique_not_group_open [OF a] show ?case by (auto simp: ts)
qed

text \<open>The walk over the parts.\<close>

lemma line_loop_columns:
  "concat (line_loop parts current_line lines) = concat lines @ current_line @ columns parts"
  by (induction parts current_line lines rule: line_loop.induct) (simp_all add: Let_def)

lemma line_loop_lengths:
  "length current_line < MAX_LINE_LENGTH \<Longrightarrow>
   \<forall>line \<in> set lines. line \<noteq> [] \<and> length line \<le> MAX_LINE_LENGTH \<Longrightarrow>
   \<forall>line \<in> set (line_loop parts current_line lines). line \<noteq> [] \<and> length line \<le> MAX_LINE_LENGTH"
proof (induction parts current_line lines rule: line_loop.induct)
  case (1 current_line lines)
  then show ?case by auto
next
  case (2 part rest current_line lines)
  show ?case
  proof (cases "length (current_line @ [fst (next_column part rest)]) \<ge> MAX_LINE_LENGTH")
    case True
    have "\<forall>line\<in>set (line_loop (snd (next_column part rest)) []
              (lines @ [current_line @ [fst (next_column part rest)]])).
            line \<noteq> [] \<and> length line \<le> MAX_LINE_LENGTH"
      using True "2.prems"
      by (intro "2.IH"(1) [OF refl True]) (auto simp: MAX_LINE_LENGTH_def)
    with True show ?thesis by (simp add: Let_def)
  next
    case False
    have "\<forall>line\<in>set (line_loop (snd (next_column part rest))
              (current_line @ [fst (next_column part rest)]) lines).
            line \<noteq> [] \<and> length line \<le> MAX_LINE_LENGTH"
      using False "2.prems"
      by (intro "2.IH"(2) [OF refl False]) auto
    with False show ?thesis by (simp add: Let_def)
  qed
qed

lemma columns_plain: "group_open \<notin> set xs \<Longrightarrow> columns xs = xs"
  by (induction xs) (auto simp: next_column_def)

lemma columns_prefix:
  "group_open \<notin> set xs \<Longrightarrow> columns (xs @ ys) = xs @ columns ys"
  by (induction xs) (auto simp: next_column_def)

lemma columns_block:
  "columns (group_open # a1 # a2 # a3 # group_close # rest)
     = join '' '' [group_open, a1, a2, a3, group_close @ '' ''] # columns rest"
  by (simp add: next_column_def)

lemma separators_not_group_open:
  "eq_plus \<noteq> group_open" "separator_latex MajorGap \<noteq> group_open"
  "separator_latex MinorGap \<noteq> group_open" "separator_latex Dash \<noteq> group_open"
  "group_close \<noteq> group_open"
  "group_open \<noteq> eq_plus" "group_open \<noteq> separator_latex MajorGap"
  "group_open \<noteq> separator_latex MinorGap" "group_open \<noteq> separator_latex Dash"
  "group_open \<noteq> group_close"
  by (simp_all add: eq_plus_def group_open_def group_close_def)

lemma country_code_parts_no_open:
  "country_code_parts hp cc g = Inr (ps, used', g') \<Longrightarrow>
     group_open \<notin> set (map token_latex ps)"
  by (auto simp: country_code_parts_def Let_def separators_not_group_open
      simp del: separator_latex.simps
      dest!: latex_for_digits_shape split: if_splits sum.splits)

lemma wrap_columns_concat: "concat (wrap_columns parts) = columns parts"
  by (simp add: wrap_columns_def line_loop_columns)

lemma wrap_columns_lengths:
  "\<forall>line \<in> set (wrap_columns parts). line \<noteq> [] \<and> length line \<le> MAX_LINE_LENGTH"
  unfolding wrap_columns_def
  by (rule line_loop_lengths) (simp_all add: MAX_LINE_LENGTH_def)

lemma length_3: "length xs = 3 \<Longrightarrow> \<exists>a b c. xs = [a, b, c]"
  by (cases xs; cases "tl xs"; cases "tl (tl xs)") auto

lemma main_number_parts_ten:
  assumes "main_number_parts m used g = Inr (ps, used', g')" and "length m = 10"
  shows "\<exists>a1 a2 a3 post.
           map token_latex ps
             = [group_open, a1, a2, a3, group_close, separator_latex MinorGap] @ post \<and>
           group_open \<notin> set post"
proof -
  from assms obtain a u1 g1 b u2 g2 c where
    a: "latex_for_digits (slice m 0 3) used g = Inr (a, u1, g1)" and
    b: "latex_for_digits (slice m 3 6) u1 g1 = Inr (b, u2, g2)" and
    c: "latex_for_digits (slice_from m 6) u2 g2 = Inr (c, used', g')" and
    ps: "ps = [Separator GroupOpen] @ a @ [Separator GroupClose, Separator MinorGap] @ b
              @ [Separator Dash] @ c"
    by (auto simp: main_number_parts_def split: sum.splits)
  from latex_for_digits_shape [OF a] assms(2) have "length a = 3"
    by (simp add: slice_def)
  from length_3 [OF this] obtain x1 x2 x3 where x: "a = [x1, x2, x3]" by blast
  define post where "post = map token_latex b @ [separator_latex Dash] @ map token_latex c"
  have "group_open \<notin> set post"
    using latex_for_digits_shape [OF b] latex_for_digits_shape [OF c]
      separators_not_group_open(4)
    by (auto simp: post_def simp del: separator_latex.simps)
  moreover have "map token_latex ps
      = [group_open, token_latex x1, token_latex x2, token_latex x3, group_close,
         separator_latex MinorGap] @ post"
    by (simp add: ps x post_def)
  ultimately show ?thesis by blast
qed

text \<open>
  C9, amended. Every line of a composition has at least one and at most
  \<open>MAX_LINE_LENGTH\<close> columns. When the main number has ten digits, the five parts of the
  area code block (opening bracket, three expressions, closing bracket) are one column, so
  they are on one line; the minor gap that follows is the next column, by itself; every
  other part is a column by itself. Without a ten digit main number every part is a column.
\<close>

theorem line_wrapping_structure:
  "compose_parts s g = Inr c \<Longrightarrow>
     (\<forall>line \<in> set (wrap_columns (latex_parts_of c)).
        line \<noteq> [] \<and> length line \<le> MAX_LINE_LENGTH) \<and>
     (length (main_number_of c) \<noteq> 10 \<longrightarrow>
        concat (wrap_columns (latex_parts_of c)) = latex_parts_of c) \<and>
     (length (main_number_of c) = 10 \<longrightarrow>
        (\<exists>pre a1 a2 a3 post.
           latex_parts_of c
             = pre @ [group_open, a1, a2, a3, group_close, separator_latex MinorGap] @ post \<and>
           concat (wrap_columns (latex_parts_of c))
             = pre @ [join '' '' [group_open, a1, a2, a3, group_close @ '' ''],
                      separator_latex MinorGap] @ post))"
proof -
  assume c: "compose_parts s g = Inr c"
  from compose_parts_fields [OF c] obtain p1 u1 g1 p2 hp where
    cc: "country_code_parts hp (country_code_of c) g = Inr (p1, u1, g1)" and
    mn: "main_number_parts (main_number_of c) u1 g1 = Inr (p2, used_formulas_of c, rng_of c)" and
    ts: "tokens_of c = p1 @ p2" by blast
  have pre: "group_open \<notin> set (map token_latex p1)"
    using cc by (rule country_code_parts_no_open)
  have parts: "latex_parts_of c = map token_latex p1 @ map token_latex p2"
    by (simp add: latex_parts_of_def ts)
  have plain: "concat (wrap_columns (latex_parts_of c)) = latex_parts_of c"
    if "length (main_number_of c) \<noteq> 10"
  proof -
    from that mn have "latex_for_digits (main_number_of c) u1 g1
        = Inr (p2, used_formulas_of c, rng_of c)"
      by (simp add: main_number_parts_def)
    from latex_for_digits_shape [OF this] pre
    have "group_open \<notin> set (latex_parts_of c)" by (simp add: parts)
    then show ?thesis by (simp add: wrap_columns_concat columns_plain)
  qed
  have block: "\<exists>pre a1 a2 a3 post.
           latex_parts_of c
             = pre @ [group_open, a1, a2, a3, group_close, separator_latex MinorGap] @ post \<and>
           concat (wrap_columns (latex_parts_of c))
             = pre @ [join '' '' [group_open, a1, a2, a3, group_close @ '' ''],
                      separator_latex MinorGap] @ post"
    if "length (main_number_of c) = 10"
  proof -
    from main_number_parts_ten [OF mn that] obtain a1 a2 a3 post where
      p2: "map token_latex p2
             = [group_open, a1, a2, a3, group_close, separator_latex MinorGap] @ post" and
      post: "group_open \<notin> set post" by blast
    have gap: "group_open \<notin> set (separator_latex MinorGap # post)"
      using post separators_not_group_open(3) by (simp del: separator_latex.simps)
    have "columns (latex_parts_of c)
        = map token_latex p1 @ columns (group_open # a1 # a2 # a3 # group_close
            # separator_latex MinorGap # post)"
      using pre by (simp add: parts p2 columns_prefix del: separator_latex.simps)
    also have "\<dots> = map token_latex p1 @ join '' '' [group_open, a1, a2, a3, group_close @ '' '']
        # columns (separator_latex MinorGap # post)"
      by (simp only: columns_block)
    also have "columns (separator_latex MinorGap # post) = separator_latex MinorGap # post"
      using gap by (rule columns_plain)
    finally have "concat (wrap_columns (latex_parts_of c))
        = map token_latex p1 @ [join '' '' [group_open, a1, a2, a3, group_close @ '' ''],
                      separator_latex MinorGap] @ post"
      by (simp add: wrap_columns_concat del: separator_latex.simps join.simps)
    moreover have "latex_parts_of c
        = map token_latex p1 @ [group_open, a1, a2, a3, group_close, separator_latex MinorGap]
            @ post"
      by (simp add: parts p2)
    ultimately show ?thesis by blast
  qed
  from wrap_columns_lengths plain block show ?thesis by blast
qed

lemma first_9_not_group_open: "fst (get_9_templates zero_rng) ! 0 \<noteq> group_open"
proof -
  have "fst (get_9_templates zero_rng) ! 0 \<in> set (fst (get_9_templates zero_rng))"
    by (simp add: get_9_length)
  from template_not_group_open [where f=get_9_templates and g=zero_rng, OF provider_9 this]
  show ?thesis .
qed

lemma lookups_9_exhausted:
  "latex_for_digits (replicate n (CHR ''9'')) {fst (get_9_templates zero_rng) ! 0} zero_rng
     = Inr (replicate n (Digit (CHR ''9'') (fst (get_9_templates zero_rng) ! 0)),
            {fst (get_9_templates zero_rng) ! 0}, zero_rng)"
  by (induction n) (simp_all add: lookup_9_exhausted)

lemma lookups_9_fresh:
  "latex_for_digits (replicate (Suc n) (CHR ''9'')) {} zero_rng
     = Inr (replicate (Suc n) (Digit (CHR ''9'') (fst (get_9_templates zero_rng) ! 0)),
            {fst (get_9_templates zero_rng) ! 0}, zero_rng)"
  by (simp add: lookup_9_fresh lookups_9_exhausted)

lemma main_number_parts_tenI:
  assumes "length m = 10"
    and "latex_for_digits (slice m 0 3) used g = Inr (a, u1, g1)"
    and "latex_for_digits (slice m 3 6) u1 g1 = Inr (b, u2, g2)"
    and "latex_for_digits (slice_from m 6) u2 g2 = Inr (c, u3, g3)"
  shows "main_number_parts m used g
           = Inr ([Separator GroupOpen] @ a @ [Separator GroupClose, Separator MinorGap] @ b
                    @ [Separator Dash] @ c, u3, g3)"
  using assms by (simp add: main_number_parts_def)

lemma nines:
  "''999'' = replicate (Suc 2) (CHR ''9'')" "''999'' = replicate 3 (CHR ''9'')"
  "''9999'' = replicate 4 (CHR ''9'')"
  by (simp_all add: numeral_eq_Suc)

text \<open>
  C9, as stated, fails. For the input \<open>+999 9999999999\<close> the area code block is the third
  column of the second line, and the minor gap that follows it is a column of its own, the
  first of the third line: the walk does not join the two.
\<close>

theorem minor_gap_separate_counterexample:
  "map_sum id (wrap_columns \<circ> latex_parts_of) (compose_parts ''+999 9999999999'' zero_rng) =
     Inr [[eq_plus, fst (get_9_templates zero_rng) ! 0, fst (get_9_templates zero_rng) ! 0],
          [fst (get_9_templates zero_rng) ! 0, separator_latex MajorGap,
           join '' '' [group_open, fst (get_9_templates zero_rng) ! 0,
                       fst (get_9_templates zero_rng) ! 0, fst (get_9_templates zero_rng) ! 0,
                       group_close @ '' '']],
          [separator_latex MinorGap, fst (get_9_templates zero_rng) ! 0,
           fst (get_9_templates zero_rng) ! 0],
          [fst (get_9_templates zero_rng) ! 0, separator_latex Dash,
           fst (get_9_templates zero_rng) ! 0],
          [fst (get_9_templates zero_rng) ! 0, fst (get_9_templates zero_rng) ! 0,
           fst (get_9_templates zero_rng) ! 0]]"
proof -
  define T where "T = fst (get_9_templates zero_rng) ! 0"
  have T: "T \<noteq> group_open" "group_open \<noteq> T"
    using first_9_not_group_open by (auto simp: T_def)
  have a: "only_digits ''+999 9999999999'' = ''9999999999999''"
    by (simp add: only_digits_def py_isdigit_def)
  have b: "py_strip ''+999 9999999999'' = ''+999 9999999999''"
    by (simp add: py_strip_def py_isspace_def)
  have sp: "split_country_code True ''9999999999999'' = (''999'', ''9999999999'')"
    by (simp add: split_country_code_def startswith_def)
  have cc: "country_code_parts True ''999'' zero_rng
      = Inr ([PlusSign eq_plus, Digit (CHR ''9'') T, Digit (CHR ''9'') T, Digit (CHR ''9'') T,
              Separator MajorGap], {T}, zero_rng)"
    unfolding T_def country_code_parts_def nines(1) lookups_9_fresh
    by (simp add: numeral_eq_Suc)
  have l3: "latex_for_digits ''999'' {T} zero_rng
      = Inr ([Digit (CHR ''9'') T, Digit (CHR ''9'') T, Digit (CHR ''9'') T], {T}, zero_rng)"
    unfolding T_def nines(2) lookups_9_exhausted by (simp add: numeral_eq_Suc)
  have l4: "latex_for_digits ''9999'' {T} zero_rng
      = Inr ([Digit (CHR ''9'') T, Digit (CHR ''9'') T, Digit (CHR ''9'') T,
              Digit (CHR ''9'') T], {T}, zero_rng)"
    unfolding T_def nines(3) lookups_9_exhausted by (simp add: numeral_eq_Suc)
  have mn: "main_number_parts ''9999999999'' {T} zero_rng
      = Inr ([Separator GroupOpen, Digit (CHR ''9'') T, Digit (CHR ''9'') T, Digit (CHR ''9'') T,
              Separator GroupClose, Separator MinorGap,
              Digit (CHR ''9'') T, Digit (CHR ''9'') T, Digit (CHR ''9'') T, Separator Dash,
              Digit (CHR ''9'') T, Digit (CHR ''9'') T, Digit (CHR ''9'') T, Digit (CHR ''9'') T],
             {T}, zero_rng)"
  proof -
    have sl: "slice ''9999999999'' 0 3 = ''999''" "slice ''9999999999'' 3 6 = ''999''"
      "slice_from ''9999999999'' 6 = ''9999''"
      by (simp_all add: slice_def slice_from_def)
    have len: "length ''9999999999'' = 10" by simp
    have p1: "latex_for_digits (slice ''9999999999'' 0 3) {T} zero_rng
      = Inr ([Digit (CHR ''9'') T, Digit (CHR ''9'') T, Digit (CHR ''9'') T], {T}, zero_rng)"
      by (simp only: sl l3)
    have p2: "latex_for_digits (slice ''9999999999'' 3 6) {T} zero_rng
      = Inr ([Digit (CHR ''9'') T, Digit (CHR ''9'') T, Digit (CHR ''9'') T], {T}, zero_rng)"
      by (simp only: sl l3)
    have p3: "latex_for_digits (slice_from ''9999999999'' 6) {T} zero_rng
      = Inr ([Digit (CHR ''9'') T, Digit (CHR ''9'') T, Digit (CHR ''9'') T,
              Digit (CHR ''9'') T], {T}, zero_rng)"
      by (simp only: sl l4)
    from main_number_parts_tenI [OF len p1 p2 p3] show ?thesis by simp
  qed
  have parts: "map_sum id latex_parts_of (compose_parts ''+999 9999999999'' zero_rng)
      = Inr [eq_plus, T, T, T, separator_latex MajorGap, group_open, T, T, T, group_close,
             separator_latex MinorGap, T, T, T, separator_latex Dash, T, T, T, T]"
    by (simp add: compose_parts_def a b sp cc mn startswith_def latex_parts_of_def
        del: separator_latex.simps(3,4,5))
  have wrap: "wrap_columns [eq_plus, T, T, T, separator_latex MajorGap, group_open, T, T, T,
             group_close, separator_latex MinorGap, T, T, T, separator_latex Dash, T, T, T, T]
      = [[eq_plus, T, T],
         [T, separator_latex MajorGap, join '' '' [group_open, T, T, T, group_close @ '' '']],
         [separator_latex MinorGap, T, T], [T, separator_latex Dash, T], [T, T, T]]"
    by (simp add: wrap_columns_def next_column_def MAX_LINE_LENGTH_def Let_def T
        separators_not_group_open del: separator_latex.simps join.simps)
  from parts wrap show ?thesis
    unfolding T_def [symmetric]
    by (cases "compose_parts ''+999 9999999999'' zero_rng") (simp_all del: separator_latex.simps join.simps)
qed

theorem line_wrapping_structure_witness:
  "\<exists>c. compose_parts ''9999999999'' zero_rng = Inr c \<and>
       length (main_number_of c) = 10 \<and>
       list_all (\<lambda>line. line \<noteq> [] \<and> length line \<le> MAX_LINE_LENGTH)
         (wrap_columns (latex_parts_of c)) \<and>
       (\<exists>pre a1 a2 a3 post.
           latex_parts_of c
             = pre @ [group_open, a1, a2, a3, group_close, separator_latex MinorGap] @ post \<and>
           concat (wrap_columns (latex_parts_of c))
             = pre @ [join '' '' [group_open, a1, a2, a3, group_close @ '' ''],
                      separator_latex MinorGap] @ post)"
proof -
  have a: "only_digits ''9999999999'' = ''9999999999''"
    by (simp add: only_digits_def py_isdigit_def)
  then have "only_digits ''9999999999'' \<noteq> []" by simp
  from compose_parts_total [OF this] obtain c where
    c: "compose_parts ''9999999999'' zero_rng = Inr c" by blast
  from compose_parts_fields [OF c] have
    "split_country_code (startswith (py_strip ''9999999999'') ''+'') (only_digits ''9999999999'')
       = (country_code_of c, main_number_of c)" by blast
  then have "main_number_of c = snd (split_country_code
       (startswith (py_strip ''9999999999'') ''+'') (only_digits ''9999999999''))" by simp
  then have m: "length (main_number_of c) = 10"
    by (simp add: a split_country_code_def startswith_def py_strip_def py_isspace_def)
  from line_wrapping_structure [OF c] m c show ?thesis
    by (auto simp: list_all_iff simp del: separator_latex.simps join.simps)
qed

section \<open>The lookups of one composition\<close>

lemma digit_tokens_append: "digit_tokens (xs @ ys) = digit_tokens xs @ digit_tokens ys"
  by (induction xs rule: digit_tokens.induct) simp_all

lemma latex_for_digits_tokens:
  "latex_for_digits ds used g = Inr (ts, used', g') \<Longrightarrow> digit_tokens ts = ts"
  by (induction ds arbitrary: used g ts) (auto split: sum.splits)

lemma digit_tokens_member: "Digit d e \<in> set ts \<Longrightarrow> Digit d e \<in> set (digit_tokens ts)"
  by (induction ts rule: digit_tokens.induct) auto

text \<open>What a lookup returns is the placeholder of the character or one of its templates.\<close>

lemma get_unique_expression:
  assumes "get_unique_latex_for_digit d used g = Inr (e, used', g')"
  shows "(templates_provider d = None \<and> e = eq_placeholder d) \<or>
         (\<exists>f h. templates_provider d = Some f \<and> e \<in> set (fst (f h)))"
proof (cases "templates_provider d")
  case None
  with assms show ?thesis by (auto simp: get_unique_placeholder)
next
  case (Some f)
  have ne: "\<And>g. fst (f g) \<noteq> []" using Some by (rule provider_nonempty)
  have "\<exists>k. e = nth_draw f k g"
  proof (cases "exhausted d used g")
    case True
    from get_unique_exhausted [OF Some True] assms show ?thesis by auto
  next
    case False
    with Some have "\<not> (\<forall>i<MAX_UNIQUE_ATTEMPTS. nth_draw f i g \<in> used)"
      by (simp add: exhausted_iff)
    from first_fresh [OF this] obtain j where
      "j < MAX_UNIQUE_ATTEMPTS" "\<forall>i<j. nth_draw f i g \<in> used" "nth_draw f j g \<notin> used" by blast
    from get_unique_fresh [OF Some this] assms show ?thesis by auto
  qed
  then obtain k where k: "e = nth_draw f k g" by blast
  note m = nth_draw_member [where f=f and k=k and g=g, OF ne]
  from m k Some show ?thesis by blast
qed

text \<open>
  The loop over the digits calls the lookup once for each digit, in order, each call on the
  state the call before has left: \<open>sts\<close> lists these states.
\<close>

lemma latex_for_digits_states:
  "latex_for_digits ds used g = Inr (ts, used', g') \<Longrightarrow>
     \<exists>sts. length sts = Suc (length ds) \<and> sts ! 0 = (used, g) \<and> last sts = (used', g') \<and>
           length ts = length ds \<and>
           (\<forall>i<length ds.
              fst (sts ! i) \<subseteq> fst (sts ! Suc i) \<and>
              (\<exists>e. get_unique_latex_for_digit (ds ! i) (fst (sts ! i)) (snd (sts ! i))
                      = Inr (e, sts ! Suc i) \<and>
                   ts ! i = Digit (ds ! i) e))"
proof (induction ds arbitrary: used g ts)
  case Nil
  then have "length [(used, g)] = Suc (length ([]::string)) \<and> [(used, g)] ! 0 = (used, g) \<and>
      last [(used, g)] = (used', g') \<and> length ts = length ([]::string)" by simp
  then show ?case by (intro exI [of _ "[(used, g)]"]) simp
next
  case (Cons d ds)
  from Cons.prems obtain e u1 g1 ts1 where
    a: "get_unique_latex_for_digit d used g = Inr (e, u1, g1)" and
    b: "latex_for_digits ds u1 g1 = Inr (ts1, used', g')" and
    ts: "ts = Digit d e # ts1"
    by (auto split: sum.splits)
  from Cons.IH [OF b] obtain sts where
    len: "length sts = Suc (length ds)" and first: "sts ! 0 = (u1, g1)" and
    lst: "last sts = (used', g')" and lts: "length ts1 = length ds" and
    step: "\<forall>i<length ds.
              fst (sts ! i) \<subseteq> fst (sts ! Suc i) \<and>
              (\<exists>e. get_unique_latex_for_digit (ds ! i) (fst (sts ! i)) (snd (sts ! i))
                      = Inr (e, sts ! Suc i) \<and>
                   ts1 ! i = Digit (ds ! i) e)" by blast
  from len have ne: "sts \<noteq> []" by auto
  from get_unique_cases [OF a] have sub: "used \<subseteq> u1" by auto
  have "\<forall>i<length (d # ds).
          fst (((used, g) # sts) ! i) \<subseteq> fst (((used, g) # sts) ! Suc i) \<and>
          (\<exists>e. get_unique_latex_for_digit ((d # ds) ! i) (fst (((used, g) # sts) ! i))
                   (snd (((used, g) # sts) ! i)) = Inr (e, ((used, g) # sts) ! Suc i) \<and>
               ts ! i = Digit ((d # ds) ! i) e)"
  proof (intro allI impI)
    fix i assume i: "i < length (d # ds)"
    show "fst (((used, g) # sts) ! i) \<subseteq> fst (((used, g) # sts) ! Suc i) \<and>
          (\<exists>e. get_unique_latex_for_digit ((d # ds) ! i) (fst (((used, g) # sts) ! i))
                   (snd (((used, g) # sts) ! i)) = Inr (e, ((used, g) # sts) ! Suc i) \<and>
               ts ! i = Digit ((d # ds) ! i) e)"
    proof (cases i)
      case 0
      with a first sub show ?thesis by (simp add: ts)
    next
      case (Suc j)
      with i have "j < length ds" by simp
      with step Suc show ?thesis by (simp add: ts)
    qed
  qed
  moreover have "length ((used, g) # sts) = Suc (length (d # ds))" using len by simp
  moreover have "((used, g) # sts) ! 0 = (used, g)" by simp
  moreover have "last ((used, g) # sts) = (used', g')" using ne lst by simp
  moreover have "length ts = length (d # ds)" using lts by (simp add: ts)
  ultimately show ?case by blast
qed

lemma country_code_parts_tokens:
  assumes "country_code_parts hp cc g = Inr (ps, used', g')"
  shows "latex_for_digits cc {} g = Inr (digit_tokens ps, used', g')"
proof (cases "cc = []")
  case True
  with assms show ?thesis by (auto simp: country_code_parts_def)
next
  case False
  with assms obtain ts where
    l: "latex_for_digits cc {} g = Inr (ts, used', g')" and
    ps: "ps = (if hp then [PlusSign eq_plus] else []) @ ts @ [Separator MajorGap]"
    by (auto simp: country_code_parts_def Let_def split: sum.splits)
  from latex_for_digits_tokens [OF l] have "digit_tokens ps = ts"
    by (simp add: ps digit_tokens_append)
  with l show ?thesis by simp
qed

lemma main_number_parts_tokens:
  assumes "main_number_parts m used g = Inr (ps, used', g')"
  shows "latex_for_digits m used g = Inr (digit_tokens ps, used', g')"
proof (cases "length m = 10")
  case False
  with assms have l: "latex_for_digits m used g = Inr (ps, used', g')"
    by (simp add: main_number_parts_def)
  from latex_for_digits_tokens [OF l] l show ?thesis by simp
next
  case True
  from True assms obtain a u1 g1 b u2 g2 c where
    a: "latex_for_digits (slice m 0 3) used g = Inr (a, u1, g1)" and
    b: "latex_for_digits (slice m 3 6) u1 g1 = Inr (b, u2, g2)" and
    c: "latex_for_digits (slice_from m 6) u2 g2 = Inr (c, used', g')" and
    ps: "ps = [Separator GroupOpen] @ a @ [Separator GroupClose, Separator MinorGap] @ b
              @ [Separator Dash] @ c"
    by (auto simp: main_number_parts_def split: sum.splits)
  have "latex_for_digits (slice m 0 3 @ slice m 3 6 @ slice_from m 6) used g
          = Inr (a @ b @ c, used', g')"
    using a b c by (simp add: latex_for_digits_append)
  then have "latex_for_digits m used g = Inr (a @ b @ c, used', g')"
    by (simp only: ten_split)
  moreover have "digit_tokens ps = a @ b @ c"
    using latex_for_digits_tokens [OF a] latex_for_digits_tokens [OF b]
      latex_for_digits_tokens [OF c]
    by (simp add: ps digit_tokens_append)
  ultimately show ?thesis by simp
qed

lemma compose_parts_threaded:
  assumes "compose_parts s g = Inr c"
  shows "latex_for_digits (only_digits s) {} g
           = Inr (digit_tokens (tokens_of c), used_formulas_of c, rng_of c)"
proof -
  from compose_parts_fields [OF assms] obtain p1 u1 g1 p2 hp where
    cc: "country_code_parts hp (country_code_of c) g = Inr (p1, u1, g1)" and
    mn: "main_number_parts (main_number_of c) u1 g1 = Inr (p2, used_formulas_of c, rng_of c)" and
    ts: "tokens_of c = p1 @ p2" by blast
  have "latex_for_digits (country_code_of c @ main_number_of c) {} g
          = Inr (digit_tokens p1 @ digit_tokens p2, used_formulas_of c, rng_of c)"
    using country_code_parts_tokens [OF cc] main_number_parts_tokens [OF mn]
    by (simp add: latex_for_digits_append)
  then show ?thesis
    by (simp only: compose_parts_digits(2) [OF assms] ts digit_tokens_append)
qed

lemma compose_parts_expressions:
  assumes "compose_parts s g = Inr c" and "Digit d e \<in> set (tokens_of c)"
  shows "(templates_provider d = None \<and> e = eq_placeholder d) \<or>
         (\<exists>f h. templates_provider d = Some f \<and> e \<in> set (fst (f h)))"
proof -
  note l = compose_parts_threaded [OF assms(1)]
  from latex_for_digits_states [OF l] obtain sts where
    len: "length (digit_tokens (tokens_of c)) = length (only_digits s)" and
    step: "\<forall>i<length (only_digits s).
             fst (sts ! i) \<subseteq> fst (sts ! Suc i) \<and>
             (\<exists>e. get_unique_latex_for_digit (only_digits s ! i) (fst (sts ! i)) (snd (sts ! i))
                     = Inr (e, sts ! Suc i) \<and>
                  digit_tokens (tokens_of c) ! i = Digit (only_digits s ! i) e)" by blast
  from digit_tokens_member [OF assms(2)] obtain i where
    i: "i < length (digit_tokens (tokens_of c))" "digit_tokens (tokens_of c) ! i = Digit d e"
    by (auto simp: in_set_conv_nth)
  from i(1) len have "i < length (only_digits s)" by simp
  with step obtain e' where
    e': "get_unique_latex_for_digit (only_digits s ! i) (fst (sts ! i)) (snd (sts ! i))
           = Inr (e', sts ! Suc i)"
      "digit_tokens (tokens_of c) ! i = Digit (only_digits s ! i) e'" by blast
  from e'(2) i(2) have eq: "only_digits s ! i = d" "e' = e" by simp_all
  obtain u' h' where "sts ! Suc i = (u', h')" by (cases "sts ! Suc i")
  with e'(1) eq have "get_unique_latex_for_digit d (fst (sts ! i)) (snd (sts ! i))
      = Inr (e, u', h')" by simp
  then show ?thesis by (rule get_unique_expression)
qed

text \<open>
  C3. For an input with at least one digit and any random sequence, the composition
  returns, and the digits of its digit tokens, in the order of emission, are the digits of
  the input: the digits of the country code followed by those of the main number. The
  strings of \<^verbatim>\<open>latex_parts\<close> are the strings of these tokens, and the expression of
  each digit token belongs to its digit: it is one of the templates of that digit, or the
  placeholder of the character when it has no templates.
\<close>

theorem composer_digit_fidelity:
  "only_digits s \<noteq> [] \<Longrightarrow>
     \<exists>c. compose_parts s g = Inr c \<and>
         digit_values (tokens_of c) = only_digits s \<and>
         digit_values (tokens_of c) = country_code_of c @ main_number_of c \<and>
         latex_parts_of c = map token_latex (tokens_of c) \<and>
         (\<forall>d e. Digit d e \<in> set (tokens_of c) \<longrightarrow>
            (templates_provider d = None \<and> e = eq_placeholder d) \<or>
            (\<exists>f h. templates_provider d = Some f \<and> e \<in> set (fst (f h))))"
proof -
  assume "only_digits s \<noteq> []"
  from compose_parts_total [OF this] obtain c where c: "compose_parts s g = Inr c" by blast
  have "\<forall>d e. Digit d e \<in> set (tokens_of c) \<longrightarrow>
            (templates_provider d = None \<and> e = eq_placeholder d) \<or>
            (\<exists>f h. templates_provider d = Some f \<and> e \<in> set (fst (f h)))"
    using compose_parts_expressions [OF c] by blast
  with compose_parts_digits [OF c] c show ?thesis by (simp add: latex_parts_of_def)
qed

lemma only_digits_99: "only_digits ''99'' = ''99''"
  by (simp add: only_digits_def py_isdigit_def)

lemma compose_99_zero:
  "compose_parts ''99'' zero_rng = Inr \<lparr>country_code_of = [], main_number_of = ''99'',
      tokens_of = [Digit (CHR ''9'') (fst (get_9_templates zero_rng) ! 0),
                   Digit (CHR ''9'') (fst (get_9_templates zero_rng) ! 0)],
      used_formulas_of = {fst (get_9_templates zero_rng) ! 0}, rng_of = zero_rng\<rparr>"
proof -
  have b: "py_strip ''99'' = ''99''" by (simp add: py_strip_def py_isspace_def)
  have c: "latex_for_digits ''99'' {} zero_rng
     = Inr ([Digit (CHR ''9'') (fst (get_9_templates zero_rng) ! 0),
             Digit (CHR ''9'') (fst (get_9_templates zero_rng) ! 0)],
            {fst (get_9_templates zero_rng) ! 0}, zero_rng)"
    by (simp add: lookup_9_fresh lookup_9_exhausted)
  show ?thesis by (rule compose_parts_plain [OF b only_digits_99 _ _ _ c]) simp_all
qed

theorem composer_digit_fidelity_witness:
  "only_digits ''+15551234567'' \<noteq> [] \<and>
   (\<exists>c. compose_parts ''+15551234567'' zero_rng = Inr c \<and>
        digit_values (tokens_of c) = ''15551234567'') \<and>
   only_digits ''99'' \<noteq> [] \<and>
   (\<exists>c. compose_parts ''99'' zero_rng = Inr c \<and>
        tokens_of c = [Digit (CHR ''9'') (fst (get_9_templates zero_rng) ! 0),
                       Digit (CHR ''9'') (fst (get_9_templates zero_rng) ! 0)] \<and>
        digit_values (tokens_of c) = ''99'' \<and>
        templates_provider (CHR ''9'') = Some get_9_templates \<and>
        (\<exists>h. fst (get_9_templates zero_rng) ! 0 \<in> set (fst (get_9_templates h))))"
proof -
  have a: "only_digits ''+15551234567'' \<noteq> []" by (simp add: only_digits_scenario_a)
  from composer_digit_fidelity [OF a, of zero_rng] obtain c where
    "compose_parts ''+15551234567'' zero_rng = Inr c"
    "digit_values (tokens_of c) = only_digits ''+15551234567''" by blast
  then have 1: "\<exists>c. compose_parts ''+15551234567'' zero_rng = Inr c \<and>
        digit_values (tokens_of c) = ''15551234567''"
    by (auto simp: only_digits_scenario_a)
  have b: "only_digits ''99'' \<noteq> []" by (simp add: only_digits_99)
  from composer_digit_fidelity [OF b, of zero_rng] obtain c where
    c: "compose_parts ''99'' zero_rng = Inr c" and
    dv: "digit_values (tokens_of c) = only_digits ''99''" and
    ex: "\<forall>d e. Digit d e \<in> set (tokens_of c) \<longrightarrow>
            (templates_provider d = None \<and> e = eq_placeholder d) \<or>
            (\<exists>f h. templates_provider d = Some f \<and> e \<in> set (fst (f h)))" by blast
  from c have ts: "tokens_of c = [Digit (CHR ''9'') (fst (get_9_templates zero_rng) ! 0),
                       Digit (CHR ''9'') (fst (get_9_templates zero_rng) ! 0)]"
    by (auto simp: compose_99_zero)
  then have "Digit (CHR ''9'') (fst (get_9_templates zero_rng) ! 0) \<in> set (tokens_of c)"
    by simp
  with ex provider_9
  have "\<exists>h. fst (get_9_templates zero_rng) ! 0 \<in> set (fst (get_9_templates h))" by fastforce
  with c ts dv have 2: "\<exists>c. compose_parts ''99'' zero_rng = Inr c \<and>
        tokens_of c = [Digit (CHR ''9'') (fst (get_9_templates zero_rng) ! 0),
                       Digit (CHR ''9'') (fst (get_9_templates zero_rng) ! 0)] \<and>
        digit_values (tokens_of c) = ''99'' \<and>
        templates_provider (CHR ''9'') = Some get_9_templates \<and>
        (\<exists>h. fst (get_9_templates zero_rng) ! 0 \<in> set (fst (get_9_templates h)))"
    by (simp add: only_digits_99 provider_9)
  from a 1 b 2 show ?thesis by blast
qed


text \<open>
  C10. One lookup leaves the used set as it is or inserts the returned expression: the set
  only grows. The placeholder and the final draw of an exhausted lookup are not inserted;
  the expression of a lookup that is not exhausted was not in the set and is inserted. The
  loops over the digits keep the set growing, and the set at the end of a composition
  holds only expressions emitted for digits with templates. One set is passed through the
  whole composition: there are states \<open>sts\<close>, the first with the empty set and the last
  with the set at the end, such that the digit token number \<open>i\<close> carries what the lookup of
  the digit number \<open>i\<close> returns on the state number \<open>i\<close>, which leaves the next state,
  with a set that contains the one before.
\<close>

theorem used_formulas_invariant:
  "(\<forall>e used' g'. get_unique_latex_for_digit d used g = Inr (e, used', g') \<longrightarrow>
      used \<subseteq> used' \<and>
      (templates_provider d = None \<longrightarrow> e = eq_placeholder d \<and> used' = used) \<and>
      (exhausted d used g \<longrightarrow> used' = used) \<and>
      (templates_provider d \<noteq> None \<and> \<not> exhausted d used g \<longrightarrow>
         e \<notin> used \<and> e \<in> used' \<and> used' = insert e used)) \<and>
   (\<forall>ts used' g'. latex_for_digits ds used g = Inr (ts, used', g') \<longrightarrow> used \<subseteq> used') \<and>
   (\<forall>ts used' g'. main_number_parts ds used g = Inr (ts, used', g') \<longrightarrow> used \<subseteq> used') \<and>
   (\<forall>c. compose_parts s g = Inr c \<longrightarrow>
      used_formulas_of c \<subseteq> set (template_exprs (tokens_of c))) \<and>
   (\<forall>c. compose_parts s g = Inr c \<longrightarrow>
      (\<exists>sts. length sts = Suc (length (only_digits s)) \<and>
            sts ! 0 = ({}, g) \<and>
            last sts = (used_formulas_of c, rng_of c) \<and>
            length (digit_tokens (tokens_of c)) = length (only_digits s) \<and>
            (\<forall>i<length (only_digits s).
               fst (sts ! i) \<subseteq> fst (sts ! Suc i) \<and>
               (\<exists>e. get_unique_latex_for_digit (only_digits s ! i) (fst (sts ! i)) (snd (sts ! i))
                       = Inr (e, sts ! Suc i) \<and>
                    digit_tokens (tokens_of c) ! i = Digit (only_digits s ! i) e))))"
proof (intro conjI allI impI)
  fix e used' g'
  assume a: "get_unique_latex_for_digit d used g = Inr (e, used', g')"
  from get_unique_cases [OF a] show "used \<subseteq> used'" by auto
  {
    assume "templates_provider d = None"
    with get_unique_cases [OF a] show "e = eq_placeholder d" and "used' = used" by auto
  }
  {
    assume "exhausted d used g"
    with get_unique_cases [OF a] exhausted_no_provider [of d used g]
    show "used' = used" by auto
  }
  {
    assume "templates_provider d \<noteq> None \<and> \<not> exhausted d used g"
    with get_unique_cases [OF a] show "e \<notin> used" and "e \<in> used'" and "used' = insert e used"
      by auto
  }
next
  fix ts used' g'
  assume "latex_for_digits ds used g = Inr (ts, used', g')"
  from latex_for_digits_used [OF this] show "used \<subseteq> used'" by simp
next
  fix ts used' g'
  assume "main_number_parts ds used g = Inr (ts, used', g')"
  from main_number_parts_used [OF this] show "used \<subseteq> used'" by simp
next
  fix c
  assume "compose_parts s g = Inr c"
  then show "used_formulas_of c \<subseteq> set (template_exprs (tokens_of c))"
    by (rule compose_parts_used)
next
  fix c
  assume "compose_parts s g = Inr c"
  then have "latex_for_digits (only_digits s) {} g
           = Inr (digit_tokens (tokens_of c), used_formulas_of c, rng_of c)"
    by (rule compose_parts_threaded)
  then show "\<exists>sts. length sts = Suc (length (only_digits s)) \<and>
            sts ! 0 = ({}, g) \<and>
            last sts = (used_formulas_of c, rng_of c) \<and>
            length (digit_tokens (tokens_of c)) = length (only_digits s) \<and>
            (\<forall>i<length (only_digits s).
               fst (sts ! i) \<subseteq> fst (sts ! Suc i) \<and>
               (\<exists>e. get_unique_latex_for_digit (only_digits s ! i) (fst (sts ! i)) (snd (sts ! i))
                       = Inr (e, sts ! Suc i) \<and>
                    digit_tokens (tokens_of c) ! i = Digit (only_digits s ! i) e))"
    by (rule latex_for_digits_states)
qed

theorem used_formulas_invariant_witness:
  "get_unique_latex_for_digit (CHR ''9'') {} zero_rng
     = Inr (fst (get_9_templates zero_rng) ! 0, {fst (get_9_templates zero_rng) ! 0}, zero_rng) \<and>
   templates_provider (CHR ''9'') \<noteq> None \<and> \<not> exhausted (CHR ''9'') {} zero_rng \<and>
   ({}::string set) \<subseteq> {fst (get_9_templates zero_rng) ! 0} \<and>
   fst (get_9_templates zero_rng) ! 0 \<in> {fst (get_9_templates zero_rng) ! 0} \<and>
   exhausted (CHR ''9'') {fst (get_9_templates zero_rng) ! 0} zero_rng \<and>
   (\<exists>c sts. compose_parts ''99'' zero_rng = Inr c \<and>
      sts = [({}, zero_rng), ({fst (get_9_templates zero_rng) ! 0}, zero_rng),
             ({fst (get_9_templates zero_rng) ! 0}, zero_rng)] \<and>
      last sts = (used_formulas_of c, rng_of c) \<and>
      used_formulas_of c = {fst (get_9_templates zero_rng) ! 0} \<and>
      digit_tokens (tokens_of c)
        = [Digit (CHR ''9'') (fst (get_9_templates zero_rng) ! 0),
           Digit (CHR ''9'') (fst (get_9_templates zero_rng) ! 0)])"
proof -
  define T where "T = fst (get_9_templates zero_rng) ! 0"
  have a: "get_unique_latex_for_digit (CHR ''9'') {} zero_rng = Inr (T, {T}, zero_rng)"
    unfolding T_def by (rule lookup_9_fresh)
  have a2: "get_unique_latex_for_digit (CHR ''9'') {T} zero_rng = Inr (T, {T}, zero_rng)"
    unfolding T_def by (rule lookup_9_exhausted)
  have b: "templates_provider (CHR ''9'') \<noteq> None" by (simp add: provider_9)
  have c: "\<not> exhausted (CHR ''9'') {} zero_rng"
    by (auto simp: exhausted_iff [OF provider_9] MAX_UNIQUE_ATTEMPTS_def intro: exI [of _ 0])
  have d: "exhausted (CHR ''9'') {T} zero_rng"
    by (simp add: T_def exhausted_iff [OF provider_9] nth_draw_9_zero)
  from used_formulas_invariant [of "CHR ''9''" "{}" zero_rng "[]" "[]"] a b c
  have 1: "({}::string set) \<subseteq> {T} \<and> T \<in> {T}" by blast
  have nd: "only_digits ''99'' \<noteq> []" by (simp add: only_digits_99)
  from compose_parts_total [OF nd] obtain c9 where c9: "compose_parts ''99'' zero_rng = Inr c9"
    by blast
  from used_formulas_invariant [of "CHR ''9''" "{}" zero_rng "[]" "''99''"] c9
  obtain sts where
    len: "length sts = Suc (length (only_digits ''99''))" and
    first: "sts ! 0 = ({}, zero_rng)" and
    lst: "last sts = (used_formulas_of c9, rng_of c9)" and
    lt: "length (digit_tokens (tokens_of c9)) = length (only_digits ''99'')" and
    step: "\<forall>i<length (only_digits ''99'').
               fst (sts ! i) \<subseteq> fst (sts ! Suc i) \<and>
               (\<exists>e. get_unique_latex_for_digit (only_digits ''99'' ! i) (fst (sts ! i))
                        (snd (sts ! i)) = Inr (e, sts ! Suc i) \<and>
                    digit_tokens (tokens_of c9) ! i = Digit (only_digits ''99'' ! i) e)"
    by blast
  from len have len3: "length sts = 3" by (simp add: only_digits_99)
  from step have s0: "\<exists>e. get_unique_latex_for_digit (CHR ''9'') (fst (sts ! 0)) (snd (sts ! 0))
        = Inr (e, sts ! Suc 0) \<and> digit_tokens (tokens_of c9) ! 0 = Digit (CHR ''9'') e"
    by (auto simp: only_digits_99 dest: spec [of _ 0])
  with first a have st1: "sts ! Suc 0 = ({T}, zero_rng)"
    and t0: "digit_tokens (tokens_of c9) ! 0 = Digit (CHR ''9'') T" by auto
  from step have s1: "\<exists>e. get_unique_latex_for_digit (CHR ''9'') (fst (sts ! Suc 0))
        (snd (sts ! Suc 0)) = Inr (e, sts ! Suc (Suc 0)) \<and>
        digit_tokens (tokens_of c9) ! Suc 0 = Digit (CHR ''9'') e"
    by (auto simp: only_digits_99 dest: spec [of _ "Suc 0"])
  with st1 a2 have st2: "sts ! Suc (Suc 0) = ({T}, zero_rng)"
    and t1: "digit_tokens (tokens_of c9) ! Suc 0 = Digit (CHR ''9'') T" by auto
  have sts: "sts = [({}, zero_rng), ({T}, zero_rng), ({T}, zero_rng)]"
    using len3 first st1 st2
    by (intro nth_equalityI) (auto simp: less_Suc_eq numeral_eq_Suc)
  from lt have "length (digit_tokens (tokens_of c9)) = 2" by (simp add: only_digits_99)
  with t0 t1 have dts: "digit_tokens (tokens_of c9) = [Digit (CHR ''9'') T, Digit (CHR ''9'') T]"
    by (intro nth_equalityI) (auto simp: less_Suc_eq numeral_eq_Suc)
  from lst sts have u: "used_formulas_of c9 = {T}" by simp
  from a b c 1 d c9 sts lst u dts show ?thesis unfolding T_def by blast
qed

end
